theory Spec2Isabelle
  imports Main "HOL-Library.Word"
begin

unbundle bit_operations_syntax

section \<open>The driver manager as seen by the wrapper\<close>

text \<open>
  The wrapper of \<^verbatim>\<open>odbc_wrapper.h\<close> talks to the ODBC driver manager through a fixed set
  of C calls. The driver manager is not part of the repository, so it is a parameter of
  every function below: a function from a call and the driver's own (opaque) state to a
  reply and the next state. Nothing is assumed about it; a theorem that needs the driver
  to answer in some way says so in a premise.
\<close>

type_synonym SQLRETURN = int
type_synonym SQLLEN = int
type_synonym SQLHANDLE = nat

text \<open>The values of \<^verbatim>\<open>sql.h\<close> and \<^verbatim>\<open>sqlext.h\<close>, the ODBC headers the wrapper includes.\<close>

definition SQL_SUCCESS :: SQLRETURN where "SQL_SUCCESS = 0"
definition SQL_SUCCESS_WITH_INFO :: SQLRETURN where "SQL_SUCCESS_WITH_INFO = 1"
definition SQL_NO_DATA :: SQLRETURN where "SQL_NO_DATA = 100"
definition SQL_ERROR :: SQLRETURN where "SQL_ERROR = - 1"
definition SQL_INVALID_HANDLE :: SQLRETURN where "SQL_INVALID_HANDLE = - 2"
definition SQL_NULL_DATA :: SQLLEN where "SQL_NULL_DATA = - 1"

text \<open>\<^verbatim>\<open>#define SQL_SUCCEEDED(rc) (((rc)&(~1))==0)\<close>, on the return code promoted to int.\<close>

definition SQL_SUCCEEDED :: "SQLRETURN \<Rightarrow> bool" where
  "SQL_SUCCEEDED rc = (rc AND NOT 1 = 0)"

text \<open>A null pointer, which is also \<^verbatim>\<open>SQL_NULL_HANDLE\<close>.\<close>

definition nullptr :: SQLHANDLE where "nullptr = 0"

definition NUL :: char where "NUL = CHR 0x00"

datatype handle_type = SQL_HANDLE_ENV | SQL_HANDLE_DBC | SQL_HANDLE_STMT

datatype c_type = SQL_C_CHAR | SQL_C_SLONG | SQL_C_DOUBLE

text \<open>
  The calls the wrapper makes, with the arguments that vary. \<open>SQLAllocHandle\<close> carries the
  parent handle, \<open>SQLSetEnvAttr\<close> is always the request for ODBC version 3,
  \<open>SQLDriverConnect\<close> the text up to the terminator (the wrapper passes \<^verbatim>\<open>SQL_NTS\<close> and
  \<^verbatim>\<open>SQL_DRIVER_NOPROMPT\<close>), \<open>SQLGetData\<close> the column, the C type and the length of the
  buffer it may write, \<open>SQLGetDiagRec\<close> always asks for record 1.
\<close>

datatype call =
    SQLAllocHandle handle_type SQLHANDLE
  | SQLSetEnvAttr SQLHANDLE
  | SQLFreeHandle handle_type SQLHANDLE
  | SQLDriverConnect SQLHANDLE string
  | SQLDisconnect SQLHANDLE
  | SQLExecDirect SQLHANDLE string
  | SQLRowCount SQLHANDLE
  | SQLFetch SQLHANDLE
  | SQLGetData SQLHANDLE nat c_type nat
  | SQLGetDiagRec handle_type SQLHANDLE

text \<open>
  What a call hands back: its return code and what it stored through its output
  pointers. An output the driver did not write is \<open>None\<close> (the caller's variable keeps
  its value). \<open>out_chars\<close> are the bytes written to the front of a character buffer.
  For \<open>SQLGetDiagRec\<close>, \<open>diag_state\<close> and \<open>diag_message\<close> are the bytes written to the front
  of the state buffer and of the message buffer, \<open>diag_native\<close> the native code and
  \<open>diag_text_length\<close> the length stored through the \<^verbatim>\<open>text_length\<close> pointer, a
  \<^verbatim>\<open>SQLSMALLINT\<close>: the length of the whole message, which may be more than was written.
\<close>

record reply =
  ret :: SQLRETURN
  out_handle :: "SQLHANDLE option"
  out_len :: "SQLLEN option"
  out_chars :: string
  out_long :: "int option"
  out_double :: "64 word option"
  diag_state :: string
  diag_native :: "int option"
  diag_message :: string
  diag_text_length :: "int option"

type_synonym 'd driver = "call \<Rightarrow> 'd \<Rightarrow> reply \<times> 'd"

text \<open>
  The lines the wrapper and the pool write to \<^verbatim>\<open>std::cerr\<close>. The thread-id prefix and the
  exact wording belong to the reporting collaborator; which line is written, and when, is
  kept.
\<close>

datatype log_line =
    Closing_connection_via_destructor
  | Connection_established_successfully
  | Explicitly_disconnecting_connection
  | Creating_new_connection string

text \<open>
  The world outside the wrapper: the driver's state, the calls made so far in order, and
  the lines written to \<^verbatim>\<open>std::cerr\<close>.
\<close>

record 'd world =
  dstate :: 'd
  trace :: "call list"
  cerr :: "log_line list"

definition invoke :: "'d driver \<Rightarrow> call \<Rightarrow> 'd world \<Rightarrow> reply \<times> 'd world" where
  "invoke drv c w =
     (case drv c (dstate w) of
        (r, d) \<Rightarrow> (r, w\<lparr>dstate := d, trace := trace w @ [c]\<rparr>))"

definition write_cerr :: "log_line \<Rightarrow> 'd world \<Rightarrow> 'd world" where
  "write_cerr l w = w\<lparr>cerr := cerr w @ [l]\<rparr>"

section \<open>Errors\<close>

record OdbcError =
  sql_state :: string
  native_error :: int
  message :: string

text \<open>\<^verbatim>\<open>std::optional::value_or\<close>.\<close>

definition value_or :: "'a option \<Rightarrow> 'a \<Rightarrow> 'a" where
  "value_or x d = (case x of None \<Rightarrow> d | Some v \<Rightarrow> v)"

subsection \<open>Character buffers\<close>

text \<open>
  The driver writes into the buffer it is given and never past its end: the bytes of a
  reply that would not fit are dropped. The rest of the buffer keeps its contents.
\<close>

definition store_chars :: "string \<Rightarrow> string \<Rightarrow> string" where
  "store_chars bytes buffer = take (length buffer) bytes @ drop (length bytes) buffer"

text \<open>A C string: the bytes before the first terminator.\<close>

definition c_str :: "string \<Rightarrow> string" where
  "c_str s = takeWhile (\<lambda>c. c \<noteq> NUL) s"

text \<open>
  The wrapper builds strings from its buffers in two ways: up to the terminator, and
  \<^verbatim>\<open>std::string::assign(buffer.data(), n)\<close>, which reads \<open>n\<close> bytes from the start of the
  buffer. When the buffer holds no terminator, or \<open>n\<close> is more than the buffer holds, the
  read leaves the buffer, which C++ does not define; the model gives that outcome a name
  of its own instead of a value.
\<close>

datatype 'a behaviour = Returns 'a | Reads_past_buffer

subsection \<open>Exceptions\<close>

text \<open>
  \<^verbatim>\<open>OdbcSetupError\<close> of the wrapper and \<^verbatim>\<open>ConnectionPoolError\<close> of the pool. The message of the
  second is formatted from an error record and is as defined as that record is.
\<close>

datatype exn = OdbcSetupError string | ConnectionPoolError "string behaviour"

subsection \<open>The diagnostic record\<close>

definition SQL_MAX_MESSAGE_LENGTH :: nat where "SQL_MAX_MESSAGE_LENGTH = 512"

text \<open>
  \<^verbatim>\<open>get_diagnostic_record\<close> gives \<open>SQLGetDiagRec\<close> a state buffer of 6 bytes and a message
  buffer of \<^verbatim>\<open>SQL_MAX_MESSAGE_LENGTH\<close> bytes, both zeroed. On success it reads the state as a
  C string and the message as \<^verbatim>\<open>text_length\<close> bytes of the message buffer, without comparing
  \<^verbatim>\<open>text_length\<close> with the size of the buffer. A negative \<^verbatim>\<open>text_length\<close> becomes a huge
  unsigned count in the call of \<^verbatim>\<open>assign\<close>, so it leaves the buffer as well.
\<close>

definition get_diagnostic_record ::
  "'d driver \<Rightarrow> SQLHANDLE \<Rightarrow> handle_type \<Rightarrow> 'd world
     \<Rightarrow> OdbcError option behaviour \<times> 'd world" where
  "get_diagnostic_record drv handle ht w =
     (case invoke drv (SQLGetDiagRec ht handle) w of
        (r, w1) \<Rightarrow>
          if SQL_SUCCEEDED (ret r)
          then (let sql_state_buffer = store_chars (diag_state r) (replicate 6 NUL);
                    message_text_buffer =
                      store_chars (diag_message r) (replicate SQL_MAX_MESSAGE_LENGTH NUL);
                    native = value_or (diag_native r) 0;
                    text_length = value_or (diag_text_length r) 0
                in if NUL \<in> set sql_state_buffer \<and> 0 \<le> text_length
                      \<and> nat text_length \<le> length message_text_buffer
                   then (Returns (Some \<lparr>sql_state = c_str sql_state_buffer,
                                          native_error = native,
                                          message = take (nat text_length) message_text_buffer\<rparr>),
                         w1)
                   else (Reads_past_buffer, w1))
          else (Returns None, w1))"

text \<open>
  \<^verbatim>\<open>get_diagnostic_record(...).value_or(fallback)\<close>, the error every failure branch returns:
  the record found, the fallback when there is none, and not defined when building the
  record read past a buffer. A fallible operation returns \<^verbatim>\<open>std::expected<T, OdbcError>\<close>: a value
  on the right, or such an error on the left.
\<close>

definition record_or :: "OdbcError option behaviour \<Rightarrow> OdbcError \<Rightarrow> OdbcError behaviour" where
  "record_or d fallback =
     (case d of Returns x \<Rightarrow> Returns (value_or x fallback) | Reads_past_buffer \<Rightarrow> Reads_past_buffer)"

section \<open>Resource handles\<close>

text \<open>
  Each class holds one native handle, \<^verbatim>\<open>m_handle\<close>, which is \<open>nullptr\<close> in the empty state.
  The copy constructor and copy assignment of all three are deleted, so the model has
  no copy operation.
\<close>

datatype Environment = Environment (env_handle: SQLHANDLE)
datatype Connection = Connection (conn_handle: SQLHANDLE)
datatype Statement = Statement (stmt_handle: SQLHANDLE)

text \<open>The variable a handle is allocated into starts as \<open>nullptr\<close>.\<close>

definition allocated :: "reply \<Rightarrow> SQLHANDLE" where
  "allocated r = value_or (out_handle r) nullptr"

subsection \<open>Environment\<close>

definition Environment_ctor :: "'d driver \<Rightarrow> 'd world \<Rightarrow> (exn + Environment) \<times> 'd world" where
  "Environment_ctor drv w =
     (case invoke drv (SQLAllocHandle SQL_HANDLE_ENV nullptr) w of
        (r, w1) \<Rightarrow>
          if \<not> SQL_SUCCEEDED (ret r)
          then (Inl (OdbcSetupError ''ODBC: Failed to allocate environment handle.''), w1)
          else (case invoke drv (SQLSetEnvAttr (allocated r)) w1 of
                  (r2, w2) \<Rightarrow>
                    if \<not> SQL_SUCCEEDED (ret r2)
                    then (case invoke drv (SQLFreeHandle SQL_HANDLE_ENV (allocated r)) w2 of
                            (r3, w3) \<Rightarrow>
                              (Inl (OdbcSetupError
                                 ''ODBC: Failed to set environment attribute to ODBC 3.0.''), w3))
                    else (Inr (Environment (allocated r)), w2)))"

definition Environment_dtor :: "'d driver \<Rightarrow> Environment \<Rightarrow> 'd world \<Rightarrow> 'd world" where
  "Environment_dtor drv e w =
     (if env_handle e \<noteq> nullptr
      then snd (invoke drv (SQLFreeHandle SQL_HANDLE_ENV (env_handle e)) w)
      else w)"

text \<open>
  The move constructor: the new object, and the source as it is left
  (\<^verbatim>\<open>std::exchange(other.m_handle, nullptr)\<close>).
\<close>

definition Environment_move :: "Environment \<Rightarrow> Environment \<times> Environment" where
  "Environment_move other = (Environment (env_handle other), Environment nullptr)"

text \<open>
  Move assignment works on two objects that may be the same one, so the objects live in a
  store indexed by address and the operator takes the addresses \<open>this\<close> and \<open>other\<close>.
\<close>

definition Environment_move_assign ::
  "'d driver \<Rightarrow> nat \<Rightarrow> nat \<Rightarrow> (nat \<Rightarrow> Environment) \<Rightarrow> 'd world
     \<Rightarrow> (nat \<Rightarrow> Environment) \<times> 'd world" where
  "Environment_move_assign drv this other mem w =
     (if this \<noteq> other
      then (let w1 = (if env_handle (mem this) \<noteq> nullptr
                      then snd (invoke drv (SQLFreeHandle SQL_HANDLE_ENV (env_handle (mem this))) w)
                      else w);
                h = env_handle (mem other);
                mem1 = mem(other := Environment nullptr)
            in (mem1(this := Environment h), w1))
      else (mem, w))"

subsection \<open>Connection\<close>

definition Connection_ctor ::
  "'d driver \<Rightarrow> Environment \<Rightarrow> 'd world \<Rightarrow> (exn + Connection) \<times> 'd world" where
  "Connection_ctor drv env w =
     (case invoke drv (SQLAllocHandle SQL_HANDLE_DBC (env_handle env)) w of
        (r, w1) \<Rightarrow>
          if \<not> SQL_SUCCEEDED (ret r)
          then (Inl (OdbcSetupError ''ODBC: Failed to allocate connection handle.''), w1)
          else (Inr (Connection (allocated r)), w1))"

text \<open>
  Disconnect, then free; both return codes are dropped. The \<^verbatim>\<open>catch (...)\<close> of the
  destructor guards the formatting of the log line, which the model does not let fail.
\<close>

definition Connection_release :: "'d driver \<Rightarrow> SQLHANDLE \<Rightarrow> 'd world \<Rightarrow> 'd world" where
  "Connection_release drv h w =
     snd (invoke drv (SQLFreeHandle SQL_HANDLE_DBC h) (snd (invoke drv (SQLDisconnect h) w)))"

definition Connection_dtor :: "'d driver \<Rightarrow> Connection \<Rightarrow> 'd world \<Rightarrow> 'd world" where
  "Connection_dtor drv c w =
     (if conn_handle c \<noteq> nullptr
      then Connection_release drv (conn_handle c) (write_cerr Closing_connection_via_destructor w)
      else w)"

definition Connection_move :: "Connection \<Rightarrow> Connection \<times> Connection" where
  "Connection_move other = (Connection (conn_handle other), Connection nullptr)"

definition Connection_move_assign ::
  "'d driver \<Rightarrow> nat \<Rightarrow> nat \<Rightarrow> (nat \<Rightarrow> Connection) \<Rightarrow> 'd world
     \<Rightarrow> (nat \<Rightarrow> Connection) \<times> 'd world" where
  "Connection_move_assign drv this other mem w =
     (if this \<noteq> other
      then (let w1 = (if conn_handle (mem this) \<noteq> nullptr
                      then Connection_release drv (conn_handle (mem this)) w
                      else w);
                h = conn_handle (mem other);
                mem1 = mem(other := Connection nullptr)
            in (mem1(this := Connection h), w1))
      else (mem, w))"

definition driver_connect ::
  "'d driver \<Rightarrow> Connection \<Rightarrow> string \<Rightarrow> 'd world \<Rightarrow> (OdbcError behaviour + unit) \<times> 'd world" where
  "driver_connect drv c connection_string w =
     (case invoke drv (SQLDriverConnect (conn_handle c) (c_str (connection_string @ [NUL]))) w of
        (r, w1) \<Rightarrow>
          if \<not> SQL_SUCCEEDED (ret r)
          then (case get_diagnostic_record drv (conn_handle c) SQL_HANDLE_DBC w1 of
                  (d, w2) \<Rightarrow>
                    (Inl (record_or d \<lparr>sql_state = ''HY000'', native_error = 0,
                            message = ''Unknown connection error via DriverConnect''\<rparr>), w2))
          else (Inr (), write_cerr Connection_established_successfully w1))"

definition disconnect ::
  "'d driver \<Rightarrow> Connection \<Rightarrow> 'd world \<Rightarrow> (OdbcError behaviour + unit) \<times> 'd world" where
  "disconnect drv c w =
     (case invoke drv (SQLDisconnect (conn_handle c))
             (write_cerr Explicitly_disconnecting_connection w) of
        (r, w1) \<Rightarrow>
          if \<not> SQL_SUCCEEDED (ret r)
          then (case get_diagnostic_record drv (conn_handle c) SQL_HANDLE_DBC w1 of
                  (d, w2) \<Rightarrow>
                    (Inl (record_or d \<lparr>sql_state = ''HY000'', native_error = 0,
                            message = ''Unknown disconnection error''\<rparr>), w2))
          else (Inr (), w1))"

subsection \<open>Statement\<close>

definition Statement_ctor ::
  "'d driver \<Rightarrow> Connection \<Rightarrow> 'd world \<Rightarrow> (exn + Statement) \<times> 'd world" where
  "Statement_ctor drv conn w =
     (case invoke drv (SQLAllocHandle SQL_HANDLE_STMT (conn_handle conn)) w of
        (r, w1) \<Rightarrow>
          if \<not> SQL_SUCCEEDED (ret r)
          then (Inl (OdbcSetupError ''ODBC: Failed to allocate statement handle.''), w1)
          else (Inr (Statement (allocated r)), w1))"

definition Statement_dtor :: "'d driver \<Rightarrow> Statement \<Rightarrow> 'd world \<Rightarrow> 'd world" where
  "Statement_dtor drv s w =
     (if stmt_handle s \<noteq> nullptr
      then snd (invoke drv (SQLFreeHandle SQL_HANDLE_STMT (stmt_handle s)) w)
      else w)"

definition Statement_move :: "Statement \<Rightarrow> Statement \<times> Statement" where
  "Statement_move other = (Statement (stmt_handle other), Statement nullptr)"

definition Statement_move_assign ::
  "'d driver \<Rightarrow> nat \<Rightarrow> nat \<Rightarrow> (nat \<Rightarrow> Statement) \<Rightarrow> 'd world
     \<Rightarrow> (nat \<Rightarrow> Statement) \<times> 'd world" where
  "Statement_move_assign drv this other mem w =
     (if this \<noteq> other
      then (let w1 = (if stmt_handle (mem this) \<noteq> nullptr
                      then snd (invoke drv (SQLFreeHandle SQL_HANDLE_STMT (stmt_handle (mem this))) w)
                      else w);
                h = stmt_handle (mem other);
                mem1 = mem(other := Statement nullptr)
            in (mem1(this := Statement h), w1))
      else (mem, w))"

section \<open>Fallible operations of a Statement\<close>

definition execute_direct ::
  "'d driver \<Rightarrow> Statement \<Rightarrow> string \<Rightarrow> 'd world \<Rightarrow> (OdbcError behaviour + unit) \<times> 'd world" where
  "execute_direct drv s query w =
     (case invoke drv (SQLExecDirect (stmt_handle s) query) w of
        (r, w1) \<Rightarrow>
          if \<not> SQL_SUCCEEDED (ret r)
          then (case get_diagnostic_record drv (stmt_handle s) SQL_HANDLE_STMT w1 of
                  (d, w2) \<Rightarrow>
                    (Inl (record_or d \<lparr>sql_state = ''HY000'', native_error = 0,
                            message = ''Unknown execution error''\<rparr>), w2))
          else (Inr (), w1))"

definition row_count ::
  "'d driver \<Rightarrow> Statement \<Rightarrow> 'd world \<Rightarrow> (OdbcError behaviour + SQLLEN) \<times> 'd world" where
  "row_count drv s w =
     (case invoke drv (SQLRowCount (stmt_handle s)) w of
        (r, w1) \<Rightarrow>
          if \<not> SQL_SUCCEEDED (ret r)
          then (case get_diagnostic_record drv (stmt_handle s) SQL_HANDLE_STMT w1 of
                  (d, w2) \<Rightarrow>
                    (Inl (record_or d \<lparr>sql_state = ''HY000'', native_error = 0,
                            message = ''Unknown error getting row count''\<rparr>), w2))
          else (Inr (value_or (out_len r) 0), w1))"

definition fetch :: "'d driver \<Rightarrow> Statement \<Rightarrow> 'd world \<Rightarrow> (OdbcError behaviour + bool) \<times> 'd world" where
  "fetch drv s w =
     (case invoke drv (SQLFetch (stmt_handle s)) w of
        (r, w1) \<Rightarrow>
          if SQL_SUCCEEDED (ret r) then (Inr True, w1)
          else if ret r = SQL_NO_DATA then (Inr False, w1)
          else (case get_diagnostic_record drv (stmt_handle s) SQL_HANDLE_STMT w1 of
                  (d, w2) \<Rightarrow>
                    (Inl (record_or d \<lparr>sql_state = ''HY000'', native_error = 0,
                                        message = ''Unknown fetch error''\<rparr>), w2)))"


section \<open>Typed column accessor\<close>

text \<open>\<^verbatim>\<open>std::vector<char>::resize\<close>: new elements are zero. Memory is not bounded in the model.\<close>

definition resize :: "string \<Rightarrow> nat \<Rightarrow> string" where
  "resize buffer n = take n buffer @ replicate (n - length buffer) NUL"

text \<open>
  The first half of \<^verbatim>\<open>detail::get_string_data\<close>: the read into the initial buffer and the
  resize and second read. It yields the return code, the indicator and the buffer as they
  stand when the function goes on to inspect them.
\<close>

definition get_string_data_read ::
  "'d driver \<Rightarrow> SQLHANDLE \<Rightarrow> nat \<Rightarrow> 'd world \<Rightarrow> (SQLRETURN \<times> SQLLEN \<times> string) \<times> 'd world" where
  "get_string_data_read drv hstmt column_index w =
     (let buffer = replicate 1024 NUL; indicator = 0 in
      case invoke drv (SQLGetData hstmt column_index SQL_C_CHAR (length buffer)) w of
        (r, w1) \<Rightarrow>
          (let buffer = store_chars (out_chars r) buffer;
               indicator = value_or (out_len r) indicator in
           if ret r = SQL_SUCCESS_WITH_INFO \<and> indicator > int (length buffer - 1)
           then (let buffer = resize buffer (nat indicator + 1) in
                 case invoke drv (SQLGetData hstmt column_index SQL_C_CHAR (length buffer)) w1 of
                   (r2, w2) \<Rightarrow>
                     ((ret r2, value_or (out_len r2) indicator,
                       store_chars (out_chars r2) buffer), w2))
           else ((ret r, indicator, buffer), w1)))"

text \<open>
  The whole function. The outcome outside is that of building the string from the data
  buffer; the error inside is the one of the diagnostic record.
\<close>

definition get_string_data ::
  "'d driver \<Rightarrow> SQLHANDLE \<Rightarrow> nat \<Rightarrow> 'd world
     \<Rightarrow> (OdbcError behaviour + string option) behaviour \<times> 'd world" where
  "get_string_data drv hstmt column_index w =
     (case get_string_data_read drv hstmt column_index w of
        ((rc, indicator, buffer), w1) \<Rightarrow>
          if \<not> SQL_SUCCEEDED rc
          then (if indicator = SQL_NULL_DATA then (Returns (Inr None), w1)
                else (case get_diagnostic_record drv hstmt SQL_HANDLE_STMT w1 of
                        (d, w2) \<Rightarrow>
                          (Returns (Inl (record_or d \<lparr>sql_state = ''HY000'', native_error = 0,
                                      message = ''Unknown GetData<string> error''\<rparr>)), w2)))
          else if indicator = SQL_NULL_DATA then (Returns (Inr None), w1)
          else if indicator > 0
          then (if nat indicator \<le> length buffer
                then (Returns (Inr (Some (take (nat indicator) buffer))), w1)
                else (Reads_past_buffer, w1))
          else (Returns (Inr (Some [])), w1))"

text \<open>
  \<^verbatim>\<open>Statement::get_data<T>\<close> at its three supported types. \<^verbatim>\<open>sizeof(value)\<close> is 8 for both
  fixed-size types on the LP64 platforms the repository builds for. A \<^verbatim>\<open>double\<close> is carried
  as its 64 bits: the accessor hands it on and computes nothing with it.
\<close>

definition sizeof_long :: nat where "sizeof_long = 8"
definition sizeof_double :: nat where "sizeof_double = 8"

definition get_data_string ::
  "'d driver \<Rightarrow> Statement \<Rightarrow> nat \<Rightarrow> 'd world
     \<Rightarrow> (OdbcError behaviour + string option) behaviour \<times> 'd world" where
  "get_data_string drv s column_index w = get_string_data drv (stmt_handle s) column_index w"

definition get_data_long ::
  "'d driver \<Rightarrow> Statement \<Rightarrow> nat \<Rightarrow> 'd world \<Rightarrow> (OdbcError behaviour + int option) \<times> 'd world" where
  "get_data_long drv s column_index w =
     (case invoke drv (SQLGetData (stmt_handle s) column_index SQL_C_SLONG sizeof_long) w of
        (r, w1) \<Rightarrow>
          (let val = value_or (out_long r) 0; indicator = value_or (out_len r) 0 in
           if \<not> SQL_SUCCEEDED (ret r)
           then (case get_diagnostic_record drv (stmt_handle s) SQL_HANDLE_STMT w1 of
                   (d, w2) \<Rightarrow>
                     (Inl (record_or d \<lparr>sql_state = ''HY000'', native_error = 0,
                             message = ''Unknown GetData<long> error''\<rparr>), w2))
           else if indicator = SQL_NULL_DATA then (Inr None, w1)
           else (Inr (Some val), w1)))"

definition get_data_double ::
  "'d driver \<Rightarrow> Statement \<Rightarrow> nat \<Rightarrow> 'd world \<Rightarrow> (OdbcError behaviour + 64 word option) \<times> 'd world" where
  "get_data_double drv s column_index w =
     (case invoke drv (SQLGetData (stmt_handle s) column_index SQL_C_DOUBLE sizeof_double) w of
        (r, w1) \<Rightarrow>
          (let val = value_or (out_double r) 0; indicator = value_or (out_len r) 0 in
           if \<not> SQL_SUCCEEDED (ret r)
           then (case get_diagnostic_record drv (stmt_handle s) SQL_HANDLE_STMT w1 of
                   (d, w2) \<Rightarrow>
                     (Inl (record_or d \<lparr>sql_state = ''HY000'', native_error = 0,
                             message = ''Unknown GetData<double> error''\<rparr>), w2))
           else if indicator = SQL_NULL_DATA then (Inr None, w1)
           else (Inr (Some val), w1)))"

section \<open>Thread-local connection pool\<close>

text \<open>\<^verbatim>\<open>std::format("{}", n)\<close> for a \<^verbatim>\<open>long\<close>: decimal, with a minus sign when negative.\<close>

fun digits :: "nat \<Rightarrow> string" where
  "digits n =
     (if n < 10 then [''0123456789'' ! n]
      else digits (n div 10) @ [''0123456789'' ! (n mod 10)])"

definition format_long :: "int \<Rightarrow> string" where
  "format_long n = (if n < 0 then ''-'' @ digits (nat (- n)) else digits (nat n))"

definition apostrophe :: char where "apostrophe = CHR 0x27"

definition to_string :: "OdbcError \<Rightarrow> string" where
  "to_string e =
     ''ODBC Error: SQLSTATE='' @ sql_state e @ '', NativeError='' @ format_long (native_error e)
       @ '', Message='' @ [apostrophe] @ message e @ [apostrophe]"

text \<open>
  The members \<^verbatim>\<open>env_\<close> and \<^verbatim>\<open>connections_\<close> (here \<open>pool_env\<close> and \<open>connections\<close>). The second
  is a \<^verbatim>\<open>std::map\<close> from alias to Connection. Its elements never move, so the reference
  \<^verbatim>\<open>getConnection\<close> returns is the place in the map under a key.
\<close>

record ThreadLocalConnectionPool =
  pool_env :: Environment
  connections :: "string \<rightharpoonup> Connection"

datatype Connection_ref = Connections_at string

definition deref :: "ThreadLocalConnectionPool \<Rightarrow> Connection_ref \<Rightarrow> Connection option" where
  "deref p r = (case r of Connections_at a \<Rightarrow> connections p a)"

definition pool_error_message :: "string \<Rightarrow> OdbcError \<Rightarrow> string" where
  "pool_error_message alias e =
     ''Failed to establish connection for alias '' @ [apostrophe] @ alias @ [apostrophe]
       @ '': '' @ to_string e"

text \<open>
  On the throw, \<^verbatim>\<open>new_conn\<close> goes out of scope and its destructor runs. On success it is
  moved into the map and the moved-from local is destroyed at the end of the block.
\<close>

definition getConnection ::
  "'d driver \<Rightarrow> string \<Rightarrow> string \<Rightarrow> ThreadLocalConnectionPool \<Rightarrow> 'd world
     \<Rightarrow> (exn + Connection_ref) \<times> ThreadLocalConnectionPool \<times> 'd world" where
  "getConnection drv alias connection_string p w =
     (case connections p alias of
        None \<Rightarrow>
          (case Connection_ctor drv (pool_env p) (write_cerr (Creating_new_connection alias) w) of
             (Inl e, w1) \<Rightarrow> (Inl e, p, w1)
           | (Inr new_conn, w1) \<Rightarrow>
               (case driver_connect drv new_conn connection_string w1 of
                  (Inl err, w2) \<Rightarrow>
                    (Inl (ConnectionPoolError (map_behaviour (pool_error_message alias) err)), p,
                     Connection_dtor drv new_conn w2)
                | (Inr u, w2) \<Rightarrow>
                    (case Connection_move new_conn of
                       (stored, moved_from) \<Rightarrow>
                         (Inr (Connections_at alias),
                          p\<lparr>connections := (connections p)(alias \<mapsto> stored)\<rparr>,
                          Connection_dtor drv moved_from w2))))
      | Some c \<Rightarrow> (Inr (Connections_at alias), p, w))"

text \<open>The implicit constructor of the pool: the Environment member, and an empty map.\<close>

definition ThreadLocalConnectionPool_ctor ::
  "'d driver \<Rightarrow> 'd world \<Rightarrow> (exn + ThreadLocalConnectionPool) \<times> 'd world" where
  "ThreadLocalConnectionPool_ctor drv w =
     (case Environment_ctor drv w of
        (Inl e, w1) \<Rightarrow> (Inl e, w1)
      | (Inr env, w1) \<Rightarrow> (Inr \<lparr>pool_env = env, connections = Map.empty\<rparr>, w1))"

text \<open>
  \<^verbatim>\<open>thread_local ThreadLocalConnectionPool pool\<close>: one pool per thread, built the first time
  the thread gets here; when its constructor throws, the next call builds it again. The
  threads' pools are a table indexed by thread; threads are not run concurrently here.
\<close>

definition getThreadLocalConnection ::
  "'d driver \<Rightarrow> nat \<Rightarrow> string \<Rightarrow> string \<Rightarrow> (nat \<rightharpoonup> ThreadLocalConnectionPool) \<Rightarrow> 'd world
     \<Rightarrow> (exn + Connection_ref) \<times> (nat \<rightharpoonup> ThreadLocalConnectionPool) \<times> 'd world" where
  "getThreadLocalConnection drv tid alias connection_string pools w =
     (case pools tid of
        None \<Rightarrow>
          (case ThreadLocalConnectionPool_ctor drv w of
             (Inl e, w1) \<Rightarrow> (Inl e, pools, w1)
           | (Inr p, w1) \<Rightarrow>
               (case getConnection drv alias connection_string p w1 of
                  (res, p', w2) \<Rightarrow> (res, pools(tid \<mapsto> p'), w2)))
      | Some p \<Rightarrow>
          (case getConnection drv alias connection_string p w of
             (res, p', w2) \<Rightarrow> (res, pools(tid \<mapsto> p'), w2)))"

section \<open>Vocabulary of the statements\<close>

text \<open>
  \<open>failed drv c w\<close>: the driver answers call \<open>c\<close>, made in world \<open>w\<close>, with a code that is
  not a success code. \<open>after drv c w\<close>: the world once the call has been made.
  \<open>no_diagnostic\<close>: \<^verbatim>\<open>get_diagnostic_record\<close>, called in that world, finds no record.
  \<open>generic_error msg\<close>: the fallback record the wrapper builds.
\<close>

definition failed :: "'d driver \<Rightarrow> call \<Rightarrow> 'd world \<Rightarrow> bool" where
  "failed drv c w = (\<not> SQL_SUCCEEDED (ret (fst (invoke drv c w))))"

definition after :: "'d driver \<Rightarrow> call \<Rightarrow> 'd world \<Rightarrow> 'd world" where
  "after drv c w = snd (invoke drv c w)"

definition no_diagnostic :: "'d driver \<Rightarrow> handle_type \<Rightarrow> SQLHANDLE \<Rightarrow> 'd world \<Rightarrow> bool" where
  "no_diagnostic drv ht h w = (fst (get_diagnostic_record drv h ht w) = Returns None)"

definition generic_error :: "string \<Rightarrow> OdbcError" where
  "generic_error msg = \<lparr>sql_state = ''HY000'', native_error = 0, message = msg\<rparr>"


definition first_read :: "SQLHANDLE \<Rightarrow> nat \<Rightarrow> call" where
  "first_read h col = SQLGetData h col SQL_C_CHAR 1024"

definition first_indicator :: "'d driver \<Rightarrow> SQLHANDLE \<Rightarrow> nat \<Rightarrow> 'd world \<Rightarrow> SQLLEN" where
  "first_indicator drv h col w = value_or (out_len (fst (invoke drv (first_read h col) w))) 0"

definition retried :: "'d driver \<Rightarrow> SQLHANDLE \<Rightarrow> nat \<Rightarrow> 'd world \<Rightarrow> bool" where
  "retried drv h col w =
     (ret (fst (invoke drv (first_read h col) w)) = SQL_SUCCESS_WITH_INFO
      \<and> 1023 < first_indicator drv h col w)"

definition second_read :: "'d driver \<Rightarrow> SQLHANDLE \<Rightarrow> nat \<Rightarrow> 'd world \<Rightarrow> call" where
  "second_read drv h col w = SQLGetData h col SQL_C_CHAR (nat (first_indicator drv h col w) + 1)"


text \<open>
  \<open>release_calls ht h\<close>: the calls that give a native handle of kind \<open>ht\<close> back, none for the
  null handle. A connection is disconnected before it is freed.
\<close>

definition release_calls :: "handle_type \<Rightarrow> SQLHANDLE \<Rightarrow> call list" where
  "release_calls ht h =
     (if h = nullptr then []
      else case ht of
             SQL_HANDLE_DBC \<Rightarrow> [SQLDisconnect h, SQLFreeHandle SQL_HANDLE_DBC h]
           | _ \<Rightarrow> [SQLFreeHandle ht h])"

text \<open>The calls made after world \<open>w\<close> up to world \<open>w'\<close>.\<close>

definition calls_since :: "'d world \<Rightarrow> 'd world \<Rightarrow> call list" where
  "calls_since w w' = drop (length (trace w)) (trace w')"

text \<open>
  Two client scenarios for a handle class. In the first, \<open>this\<close> is move-assigned from
  \<open>other\<close> and then both objects are destroyed; in the second an object is move-constructed
  from \<open>x\<close> and then both are destroyed.
\<close>

definition Environment_assign_and_destroy ::
  "'d driver \<Rightarrow> nat \<Rightarrow> nat \<Rightarrow> (nat \<Rightarrow> Environment) \<Rightarrow> 'd world \<Rightarrow> 'd world" where
  "Environment_assign_and_destroy drv this other mem w =
     (case Environment_move_assign drv this other mem w of
        (mem', w') \<Rightarrow> Environment_dtor drv (mem' other) (Environment_dtor drv (mem' this) w'))"

definition Environment_move_and_destroy :: "'d driver \<Rightarrow> Environment \<Rightarrow> 'd world \<Rightarrow> 'd world" where
  "Environment_move_and_destroy drv x w =
     (case Environment_move x of (new, old) \<Rightarrow> Environment_dtor drv old (Environment_dtor drv new w))"

definition Connection_assign_and_destroy ::
  "'d driver \<Rightarrow> nat \<Rightarrow> nat \<Rightarrow> (nat \<Rightarrow> Connection) \<Rightarrow> 'd world \<Rightarrow> 'd world" where
  "Connection_assign_and_destroy drv this other mem w =
     (case Connection_move_assign drv this other mem w of
        (mem', w') \<Rightarrow> Connection_dtor drv (mem' other) (Connection_dtor drv (mem' this) w'))"

definition Connection_move_and_destroy :: "'d driver \<Rightarrow> Connection \<Rightarrow> 'd world \<Rightarrow> 'd world" where
  "Connection_move_and_destroy drv x w =
     (case Connection_move x of (new, old) \<Rightarrow> Connection_dtor drv old (Connection_dtor drv new w))"

definition Statement_assign_and_destroy ::
  "'d driver \<Rightarrow> nat \<Rightarrow> nat \<Rightarrow> (nat \<Rightarrow> Statement) \<Rightarrow> 'd world \<Rightarrow> 'd world" where
  "Statement_assign_and_destroy drv this other mem w =
     (case Statement_move_assign drv this other mem w of
        (mem', w') \<Rightarrow> Statement_dtor drv (mem' other) (Statement_dtor drv (mem' this) w'))"

definition Statement_move_and_destroy :: "'d driver \<Rightarrow> Statement \<Rightarrow> 'd world \<Rightarrow> 'd world" where
  "Statement_move_and_destroy drv x w =
     (case Statement_move x of (new, old) \<Rightarrow> Statement_dtor drv old (Statement_dtor drv new w))"

text \<open>
  The pool. \<open>resolve\<close>: the Connection a reference denotes in the pool of a thread. For a
  request that misses the cache: \<open>attempt_world\<close> is the world after the log line,
  \<open>alloc_call\<close> and \<open>connect_call\<close> are the two driver calls the attempt makes, \<open>new_handle\<close>
  the handle the allocation hands out. \<open>connect_fails\<close> and \<open>connect_succeeds\<close> say that the
  driver allocates the handle and then rejects, or accepts, the connection string;
  \<open>connect_error\<close> is the error \<^verbatim>\<open>driver_connect\<close> returns when it is rejected.
\<close>

definition resolve ::
  "(nat \<rightharpoonup> ThreadLocalConnectionPool) \<Rightarrow> nat \<Rightarrow> Connection_ref \<Rightarrow> Connection option" where
  "resolve pools tid r = (case pools tid of None \<Rightarrow> None | Some p \<Rightarrow> deref p r)"

definition attempt_world :: "string \<Rightarrow> 'd world \<Rightarrow> 'd world" where
  "attempt_world alias w = write_cerr (Creating_new_connection alias) w"

definition alloc_call :: "ThreadLocalConnectionPool \<Rightarrow> call" where
  "alloc_call p = SQLAllocHandle SQL_HANDLE_DBC (env_handle (pool_env p))"

definition new_handle :: "'d driver \<Rightarrow> ThreadLocalConnectionPool \<Rightarrow> string \<Rightarrow> 'd world \<Rightarrow> SQLHANDLE" where
  "new_handle drv p alias w = allocated (fst (invoke drv (alloc_call p) (attempt_world alias w)))"

definition connect_call ::
  "'d driver \<Rightarrow> ThreadLocalConnectionPool \<Rightarrow> string \<Rightarrow> string \<Rightarrow> 'd world \<Rightarrow> call" where
  "connect_call drv p alias cs w = SQLDriverConnect (new_handle drv p alias w) (c_str (cs @ [NUL]))"

definition connect_fails ::
  "'d driver \<Rightarrow> ThreadLocalConnectionPool \<Rightarrow> string \<Rightarrow> string \<Rightarrow> 'd world \<Rightarrow> bool" where
  "connect_fails drv p alias cs w =
     (\<not> failed drv (alloc_call p) (attempt_world alias w)
      \<and> failed drv (connect_call drv p alias cs w) (after drv (alloc_call p) (attempt_world alias w)))"

definition connect_succeeds ::
  "'d driver \<Rightarrow> ThreadLocalConnectionPool \<Rightarrow> string \<Rightarrow> string \<Rightarrow> 'd world \<Rightarrow> bool" where
  "connect_succeeds drv p alias cs w =
     (\<not> failed drv (alloc_call p) (attempt_world alias w)
      \<and> \<not> failed drv (connect_call drv p alias cs w) (after drv (alloc_call p) (attempt_world alias w)))"

definition connect_error ::
  "'d driver \<Rightarrow> ThreadLocalConnectionPool \<Rightarrow> string \<Rightarrow> string \<Rightarrow> 'd world
     \<Rightarrow> OdbcError behaviour" where
  "connect_error drv p alias cs w =
     record_or (fst (get_diagnostic_record drv (new_handle drv p alias w) SQL_HANDLE_DBC
                 (after drv (connect_call drv p alias cs w)
                    (after drv (alloc_call p) (attempt_world alias w)))))
       (generic_error ''Unknown connection error via DriverConnect'')"

section \<open>A driver for the examples\<close>

text \<open>
  The examples run the wrapper against a driver that answers from a script: each call
  takes the next reply, whatever the call is. When the script is used up it reports
  \<open>SQL_NO_DATA\<close> and writes nothing.
\<close>

definition no_reply :: reply where
  "no_reply = \<lparr>ret = SQL_ERROR, out_handle = None, out_len = None, out_chars = [],
     out_long = None, out_double = None, diag_state = [], diag_native = None,
     diag_message = [], diag_text_length = None\<rparr>"

definition scripted :: "reply list driver" where
  "scripted c rs = (case rs of [] \<Rightarrow> (no_reply\<lparr>ret := SQL_NO_DATA\<rparr>, []) | r # rs' \<Rightarrow> (r, rs'))"

definition start :: "'d \<Rightarrow> 'd world" where
  "start d = \<lparr>dstate = d, trace = [], cerr = []\<rparr>"

text \<open>Replies to a column read: a code, an indicator, and the bytes or the value written.\<close>

definition text_reply :: "SQLRETURN \<Rightarrow> SQLLEN \<Rightarrow> string \<Rightarrow> reply" where
  "text_reply rc ind bytes = no_reply\<lparr>ret := rc, out_len := Some ind, out_chars := bytes\<rparr>"



text \<open>
  Replies to an allocation, to a request for a diagnostic record, and a bare success. The
  diagnostic reply is that of a driver which keeps to the ODBC contract: it writes the
  state and as much of the message as fits, each with its terminator, and reports the
  length of the whole message.
\<close>

definition handle_reply :: "SQLRETURN \<Rightarrow> SQLHANDLE \<Rightarrow> reply" where
  "handle_reply rc h = no_reply\<lparr>ret := rc, out_handle := Some h\<rparr>"

definition diag_reply :: "SQLRETURN \<Rightarrow> string \<Rightarrow> int \<Rightarrow> string \<Rightarrow> reply" where
  "diag_reply rc st n msg =
     no_reply\<lparr>ret := rc, diag_state := st @ [NUL], diag_native := Some n,
       diag_message := take (SQL_MAX_MESSAGE_LENGTH - 1) msg @ [NUL],
       diag_text_length := Some (int (length msg))\<rparr>"

definition ok_reply :: reply where
  "ok_reply = no_reply\<lparr>ret := SQL_SUCCESS\<rparr>"

section \<open>Return codes\<close>

lemma SQL_SUCCEEDED_iff: "SQL_SUCCEEDED rc \<longleftrightarrow> rc = 0 \<or> rc = 1"
proof -
  have "rc AND NOT 1 = 2 * (rc div 2)"
    using unset_bit_eq_and_not [of 0 rc] by (simp only: unset_bit_0 push_bit_0_id id_apply)
  then show ?thesis
    unfolding SQL_SUCCEEDED_def by auto
qed


section \<open>Calls and the world\<close>



lemma trace_invoke: "trace (snd (invoke drv c w)) = trace w @ [c]"
  by (simp add: invoke_def split: prod.splits)

lemma cerr_invoke: "cerr (snd (invoke drv c w)) = cerr w"
  by (simp add: invoke_def split: prod.splits)

lemma scripted_simps:
  "scripted c [] = (no_reply\<lparr>ret := SQL_NO_DATA\<rparr>, [])"
  "scripted c (r # rs) = (r, rs)"
  by (simp_all add: scripted_def)

lemma value_or_simps: "value_or None d = d" "value_or (Some v) d = v"
  by (simp_all add: value_or_def)

lemma record_or_simps:
  "record_or (Returns None) d = Returns d" "record_or (Returns (Some e)) d = Returns e"
  "record_or Reads_past_buffer d = Reads_past_buffer"
  by (simp_all add: record_or_def value_or_def)

lemma SQL_SUCCEEDED_simps:
  "SQL_SUCCEEDED SQL_SUCCESS" "SQL_SUCCEEDED SQL_SUCCESS_WITH_INFO"
  "\<not> SQL_SUCCEEDED SQL_ERROR" "\<not> SQL_SUCCEEDED SQL_NO_DATA" "\<not> SQL_SUCCEEDED SQL_INVALID_HANDLE"
  by (simp_all add: SQL_SUCCEEDED_iff SQL_SUCCESS_def SQL_SUCCESS_WITH_INFO_def SQL_ERROR_def
        SQL_NO_DATA_def SQL_INVALID_HANDLE_def)

lemma invoke_scripted:
  "invoke scripted c \<lparr>dstate = r # rs, trace = t, cerr = l\<rparr>
     = (r, \<lparr>dstate = rs, trace = t @ [c], cerr = l\<rparr>)"
  "invoke scripted c \<lparr>dstate = [], trace = t, cerr = l\<rparr>
     = (no_reply\<lparr>ret := SQL_NO_DATA\<rparr>, \<lparr>dstate = [], trace = t @ [c], cerr = l\<rparr>)"
  by (simp_all add: invoke_def scripted_simps)

lemma no_reply_simps:
  "ret no_reply = SQL_ERROR" "out_handle no_reply = None" "out_len no_reply = None"
  "out_chars no_reply = []" "out_long no_reply = None" "out_double no_reply = None"
  "diag_state no_reply = []" "diag_native no_reply = None" "diag_message no_reply = []"
  "diag_text_length no_reply = None"
  by (simp_all add: no_reply_def)

lemma text_reply_simps:
  "ret (text_reply rc ind bytes) = rc" "out_len (text_reply rc ind bytes) = Some ind"
  "out_chars (text_reply rc ind bytes) = bytes"
  by (simp_all add: text_reply_def)



lemma handle_reply_simps:
  "ret (handle_reply rc h) = rc" "out_handle (handle_reply rc h) = Some h"
  by (simp_all add: handle_reply_def)

lemma diag_reply_simps:
  "ret (diag_reply rc st n msg) = rc" "diag_state (diag_reply rc st n msg) = st @ [NUL]"
  "diag_native (diag_reply rc st n msg) = Some n"
  "diag_message (diag_reply rc st n msg) = take (SQL_MAX_MESSAGE_LENGTH - 1) msg @ [NUL]"
  "diag_text_length (diag_reply rc st n msg) = Some (int (length msg))"
  by (simp_all add: diag_reply_def)

lemma ok_reply_simps: "ret ok_reply = SQL_SUCCESS"
  by (simp add: ok_reply_def)

section \<open>fetch\<close>








section \<open>The generic fallback error\<close>

text \<open>
  Each fallible operation, when the driver's code makes it fail, returns the record
  \<^verbatim>\<open>get_diagnostic_record\<close> finds, or the operation's own generic record when there is none.
\<close>

lemma no_diagnostic_iff: "no_diagnostic drv ht h w \<longleftrightarrow> failed drv (SQLGetDiagRec ht h) w"
  by (simp add: no_diagnostic_def failed_def get_diagnostic_record_def case_prod_unfold Let_def)

lemma driver_connect_failed:
  "failed drv (SQLDriverConnect (conn_handle c) (c_str (S @ [NUL]))) w \<Longrightarrow>
   fst (driver_connect drv c S w) =
     Inl (record_or (fst (get_diagnostic_record drv (conn_handle c) SQL_HANDLE_DBC
                      (after drv (SQLDriverConnect (conn_handle c) (c_str (S @ [NUL]))) w)))
            (generic_error ''Unknown connection error via DriverConnect''))"
  by (simp add: driver_connect_def failed_def after_def generic_error_def case_prod_unfold)

lemma disconnect_failed:
  "failed drv (SQLDisconnect (conn_handle c)) (write_cerr Explicitly_disconnecting_connection w) \<Longrightarrow>
   fst (disconnect drv c w) =
     Inl (record_or (fst (get_diagnostic_record drv (conn_handle c) SQL_HANDLE_DBC
                      (after drv (SQLDisconnect (conn_handle c))
                         (write_cerr Explicitly_disconnecting_connection w))))
            (generic_error ''Unknown disconnection error''))"
  by (simp add: disconnect_def failed_def after_def generic_error_def case_prod_unfold)

lemma execute_direct_failed:
  "failed drv (SQLExecDirect (stmt_handle s) q) w \<Longrightarrow>
   fst (execute_direct drv s q w) =
     Inl (record_or (fst (get_diagnostic_record drv (stmt_handle s) SQL_HANDLE_STMT
                      (after drv (SQLExecDirect (stmt_handle s) q) w)))
            (generic_error ''Unknown execution error''))"
  by (simp add: execute_direct_def failed_def after_def generic_error_def case_prod_unfold)

lemma row_count_failed:
  "failed drv (SQLRowCount (stmt_handle s)) w \<Longrightarrow>
   fst (row_count drv s w) =
     Inl (record_or (fst (get_diagnostic_record drv (stmt_handle s) SQL_HANDLE_STMT
                      (after drv (SQLRowCount (stmt_handle s)) w)))
            (generic_error ''Unknown error getting row count''))"
  by (simp add: row_count_def failed_def after_def generic_error_def case_prod_unfold)

lemma fetch_error:
  "failed drv (SQLFetch (stmt_handle s)) w \<Longrightarrow>
   ret (fst (invoke drv (SQLFetch (stmt_handle s)) w)) \<noteq> SQL_NO_DATA \<Longrightarrow>
   fst (fetch drv s w) =
     Inl (record_or (fst (get_diagnostic_record drv (stmt_handle s) SQL_HANDLE_STMT
                      (after drv (SQLFetch (stmt_handle s)) w)))
            (generic_error ''Unknown fetch error''))"
  by (simp add: fetch_def failed_def after_def generic_error_def case_prod_unfold)

lemma get_data_long_failed:
  "failed drv (SQLGetData (stmt_handle s) col SQL_C_SLONG sizeof_long) w \<Longrightarrow>
   fst (get_data_long drv s col w) =
     Inl (record_or (fst (get_diagnostic_record drv (stmt_handle s) SQL_HANDLE_STMT
                      (after drv (SQLGetData (stmt_handle s) col SQL_C_SLONG sizeof_long) w)))
            (generic_error ''Unknown GetData<long> error''))"
  by (simp add: get_data_long_def failed_def after_def generic_error_def case_prod_unfold Let_def)

lemma get_data_double_failed:
  "failed drv (SQLGetData (stmt_handle s) col SQL_C_DOUBLE sizeof_double) w \<Longrightarrow>
   fst (get_data_double drv s col w) =
     Inl (record_or (fst (get_diagnostic_record drv (stmt_handle s) SQL_HANDLE_STMT
                      (after drv (SQLGetData (stmt_handle s) col SQL_C_DOUBLE sizeof_double) w)))
            (generic_error ''Unknown GetData<double> error''))"
  by (simp add: get_data_double_def failed_def after_def generic_error_def case_prod_unfold Let_def)

lemma get_string_data_failed:
  "get_string_data_read drv h col w = ((rc, ind, buf), w1) \<Longrightarrow>
   \<not> SQL_SUCCEEDED rc \<Longrightarrow> ind \<noteq> SQL_NULL_DATA \<Longrightarrow>
   fst (get_string_data drv h col w) =
     Returns (Inl (record_or (fst (get_diagnostic_record drv h SQL_HANDLE_STMT w1))
            (generic_error ''Unknown GetData<string> error'')))"
  by (simp add: get_string_data_def generic_error_def case_prod_unfold)

text \<open>
  Claim C6. For connect, disconnect, execute, fetch, row-count and the three column reads:
  when the operation fails and diagnostics retrieval yields no record, the result is the
  error with state \<open>HY000\<close>, native code 0 and the message naming the operation; it is an
  error, never a success. An operation fails when the driver's code is not a success
  code; for \<open>fetch\<close> the code \<open>SQL_NO_DATA\<close> is the end of the rows and not a failure, and
  for a text column a NULL indicator makes the value NULL whatever the code (claims C5
  and C4).
\<close>

theorem generic_fallback_error:
  "(failed drv (SQLDriverConnect (conn_handle c) (c_str (S @ [NUL]))) w \<longrightarrow>
      no_diagnostic drv SQL_HANDLE_DBC (conn_handle c)
        (after drv (SQLDriverConnect (conn_handle c) (c_str (S @ [NUL]))) w) \<longrightarrow>
      fst (driver_connect drv c S w)
        = Inl (Returns (generic_error ''Unknown connection error via DriverConnect'')))
   \<and> (failed drv (SQLDisconnect (conn_handle c)) (write_cerr Explicitly_disconnecting_connection w) \<longrightarrow>
      no_diagnostic drv SQL_HANDLE_DBC (conn_handle c)
        (after drv (SQLDisconnect (conn_handle c)) (write_cerr Explicitly_disconnecting_connection w)) \<longrightarrow>
      fst (disconnect drv c w) = Inl (Returns (generic_error ''Unknown disconnection error'')))
   \<and> (failed drv (SQLExecDirect (stmt_handle s) q) w \<longrightarrow>
      no_diagnostic drv SQL_HANDLE_STMT (stmt_handle s) (after drv (SQLExecDirect (stmt_handle s) q) w) \<longrightarrow>
      fst (execute_direct drv s q w) = Inl (Returns (generic_error ''Unknown execution error'')))
   \<and> (failed drv (SQLFetch (stmt_handle s)) w \<longrightarrow>
      ret (fst (invoke drv (SQLFetch (stmt_handle s)) w)) \<noteq> SQL_NO_DATA \<longrightarrow>
      no_diagnostic drv SQL_HANDLE_STMT (stmt_handle s) (after drv (SQLFetch (stmt_handle s)) w) \<longrightarrow>
      fst (fetch drv s w) = Inl (Returns (generic_error ''Unknown fetch error'')))
   \<and> (failed drv (SQLRowCount (stmt_handle s)) w \<longrightarrow>
      no_diagnostic drv SQL_HANDLE_STMT (stmt_handle s) (after drv (SQLRowCount (stmt_handle s)) w) \<longrightarrow>
      fst (row_count drv s w) = Inl (Returns (generic_error ''Unknown error getting row count'')))
   \<and> (failed drv (SQLGetData (stmt_handle s) col SQL_C_SLONG sizeof_long) w \<longrightarrow>
      no_diagnostic drv SQL_HANDLE_STMT (stmt_handle s)
        (after drv (SQLGetData (stmt_handle s) col SQL_C_SLONG sizeof_long) w) \<longrightarrow>
      fst (get_data_long drv s col w) = Inl (Returns (generic_error ''Unknown GetData<long> error'')))
   \<and> (failed drv (SQLGetData (stmt_handle s) col SQL_C_DOUBLE sizeof_double) w \<longrightarrow>
      no_diagnostic drv SQL_HANDLE_STMT (stmt_handle s)
        (after drv (SQLGetData (stmt_handle s) col SQL_C_DOUBLE sizeof_double) w) \<longrightarrow>
      fst (get_data_double drv s col w) = Inl (Returns (generic_error ''Unknown GetData<double> error'')))
   \<and> (case get_string_data_read drv (stmt_handle s) col w of
        ((rc, indicator, buffer), w1) \<Rightarrow>
          \<not> SQL_SUCCEEDED rc \<longrightarrow> indicator \<noteq> SQL_NULL_DATA \<longrightarrow>
          no_diagnostic drv SQL_HANDLE_STMT (stmt_handle s) w1 \<longrightarrow>
          fst (get_data_string drv s col w)
            = Returns (Inl (Returns (generic_error ''Unknown GetData<string> error''))))"
proof -
  have v: "\<And>d. record_or (Returns None) d = Returns d" by (simp add: record_or_simps)
  have 1: "failed drv (SQLDriverConnect (conn_handle c) (c_str (S @ [NUL]))) w \<longrightarrow>
      no_diagnostic drv SQL_HANDLE_DBC (conn_handle c)
        (after drv (SQLDriverConnect (conn_handle c) (c_str (S @ [NUL]))) w) \<longrightarrow>
      fst (driver_connect drv c S w)
        = Inl (Returns (generic_error ''Unknown connection error via DriverConnect''))"
    by (simp add: driver_connect_failed no_diagnostic_def v)
  have 2: "failed drv (SQLDisconnect (conn_handle c)) (write_cerr Explicitly_disconnecting_connection w) \<longrightarrow>
      no_diagnostic drv SQL_HANDLE_DBC (conn_handle c)
        (after drv (SQLDisconnect (conn_handle c)) (write_cerr Explicitly_disconnecting_connection w)) \<longrightarrow>
      fst (disconnect drv c w) = Inl (Returns (generic_error ''Unknown disconnection error''))"
    by (simp add: disconnect_failed no_diagnostic_def v)
  have 3: "failed drv (SQLExecDirect (stmt_handle s) q) w \<longrightarrow>
      no_diagnostic drv SQL_HANDLE_STMT (stmt_handle s) (after drv (SQLExecDirect (stmt_handle s) q) w) \<longrightarrow>
      fst (execute_direct drv s q w) = Inl (Returns (generic_error ''Unknown execution error''))"
    by (simp add: execute_direct_failed no_diagnostic_def v)
  have 4: "failed drv (SQLFetch (stmt_handle s)) w \<longrightarrow>
      ret (fst (invoke drv (SQLFetch (stmt_handle s)) w)) \<noteq> SQL_NO_DATA \<longrightarrow>
      no_diagnostic drv SQL_HANDLE_STMT (stmt_handle s) (after drv (SQLFetch (stmt_handle s)) w) \<longrightarrow>
      fst (fetch drv s w) = Inl (Returns (generic_error ''Unknown fetch error''))"
    by (simp add: fetch_error no_diagnostic_def v)
  have 5: "failed drv (SQLRowCount (stmt_handle s)) w \<longrightarrow>
      no_diagnostic drv SQL_HANDLE_STMT (stmt_handle s) (after drv (SQLRowCount (stmt_handle s)) w) \<longrightarrow>
      fst (row_count drv s w) = Inl (Returns (generic_error ''Unknown error getting row count''))"
    by (simp add: row_count_failed no_diagnostic_def v)
  have 6: "failed drv (SQLGetData (stmt_handle s) col SQL_C_SLONG sizeof_long) w \<longrightarrow>
      no_diagnostic drv SQL_HANDLE_STMT (stmt_handle s)
        (after drv (SQLGetData (stmt_handle s) col SQL_C_SLONG sizeof_long) w) \<longrightarrow>
      fst (get_data_long drv s col w) = Inl (Returns (generic_error ''Unknown GetData<long> error''))"
    by (simp add: get_data_long_failed no_diagnostic_def v)
  have 7: "failed drv (SQLGetData (stmt_handle s) col SQL_C_DOUBLE sizeof_double) w \<longrightarrow>
      no_diagnostic drv SQL_HANDLE_STMT (stmt_handle s)
        (after drv (SQLGetData (stmt_handle s) col SQL_C_DOUBLE sizeof_double) w) \<longrightarrow>
      fst (get_data_double drv s col w) = Inl (Returns (generic_error ''Unknown GetData<double> error''))"
    by (simp add: get_data_double_failed no_diagnostic_def v)
  have 8: "case get_string_data_read drv (stmt_handle s) col w of
        ((rc, indicator, buffer), w1) \<Rightarrow>
          \<not> SQL_SUCCEEDED rc \<longrightarrow> indicator \<noteq> SQL_NULL_DATA \<longrightarrow>
          no_diagnostic drv SQL_HANDLE_STMT (stmt_handle s) w1 \<longrightarrow>
          fst (get_data_string drv s col w)
            = Returns (Inl (Returns (generic_error ''Unknown GetData<string> error'')))"
    by (auto simp: get_data_string_def get_string_data_failed no_diagnostic_def v
          split: prod.splits)
  from 1 2 3 4 5 6 7 8 show ?thesis by (intro conjI)
qed

text \<open>The driver fails the call and then has no diagnostic record to give.\<close>

theorem generic_fallback_error_witness:
  "fst (driver_connect scripted (Connection 1) ''dsn'' (start [no_reply, no_reply]))
      = Inl (Returns (generic_error ''Unknown connection error via DriverConnect''))
   \<and> fst (disconnect scripted (Connection 1) (start [no_reply, no_reply]))
      = Inl (Returns (generic_error ''Unknown disconnection error''))
   \<and> fst (execute_direct scripted (Statement 2) ''q'' (start [no_reply, no_reply]))
      = Inl (Returns (generic_error ''Unknown execution error''))
   \<and> fst (fetch scripted (Statement 2) (start [no_reply, no_reply]))
      = Inl (Returns (generic_error ''Unknown fetch error''))
   \<and> fst (row_count scripted (Statement 2) (start [no_reply, no_reply]))
      = Inl (Returns (generic_error ''Unknown error getting row count''))
   \<and> fst (get_data_long scripted (Statement 2) 1 (start [no_reply, no_reply]))
      = Inl (Returns (generic_error ''Unknown GetData<long> error''))
   \<and> fst (get_data_double scripted (Statement 2) 1 (start [no_reply, no_reply]))
      = Inl (Returns (generic_error ''Unknown GetData<double> error''))
   \<and> fst (get_data_string scripted (Statement 2) 1 (start [no_reply, no_reply]))
      = Returns (Inl (Returns (generic_error ''Unknown GetData<string> error'')))"
  using generic_fallback_error [of scripted "Connection 1" "''dsn''" "start [no_reply, no_reply]"
          "Statement 2" "''q''" 1]
  by (simp add: failed_def after_def no_diagnostic_def get_diagnostic_record_def
        get_string_data_read_def start_def invoke_scripted write_cerr_def
        SQL_SUCCEEDED_iff value_or_simps Let_def
        no_reply_simps SQL_NULL_DATA_def store_chars_def SQL_ERROR_def SQL_NO_DATA_def)

section \<open>Reading a text column\<close>

lemma length_store_chars: "length (store_chars bytes buffer) = length buffer"
  by (simp add: store_chars_def)

lemma length_resize: "length (resize buffer n) = n"
  by (simp add: resize_def)

lemma store_chars_Nil: "store_chars [] buffer = buffer"
  by (simp add: store_chars_def)


lemma get_string_data_read_eq:
  "get_string_data_read drv h col w =
     (if retried drv h col w
      then ((ret (fst (invoke drv (second_read drv h col w) (after drv (first_read h col) w))),
             value_or (out_len (fst (invoke drv (second_read drv h col w)
                                       (after drv (first_read h col) w))))
               (first_indicator drv h col w),
             store_chars (out_chars (fst (invoke drv (second_read drv h col w)
                                            (after drv (first_read h col) w))))
               (resize (store_chars (out_chars (fst (invoke drv (first_read h col) w)))
                          (replicate 1024 NUL))
                  (nat (first_indicator drv h col w) + 1))),
            after drv (second_read drv h col w) (after drv (first_read h col) w))
      else ((ret (fst (invoke drv (first_read h col) w)), first_indicator drv h col w,
             store_chars (out_chars (fst (invoke drv (first_read h col) w))) (replicate 1024 NUL)),
            after drv (first_read h col) w))"
  by (simp add: get_string_data_read_def retried_def first_indicator_def first_read_def
        second_read_def after_def Let_def case_prod_unfold length_store_chars length_resize)

lemma get_string_data_read_once:
  "\<not> retried drv h col w \<Longrightarrow>
   get_string_data_read drv h col w =
     ((ret (fst (invoke drv (first_read h col) w)), first_indicator drv h col w,
       store_chars (out_chars (fst (invoke drv (first_read h col) w))) (replicate 1024 NUL)),
      after drv (first_read h col) w)"
  by (simp only: get_string_data_read_eq if_False)

lemma get_string_data_read_twice:
  "retried drv h col w \<Longrightarrow>
   get_string_data_read drv h col w =
     ((ret (fst (invoke drv (second_read drv h col w) (after drv (first_read h col) w))),
       value_or (out_len (fst (invoke drv (second_read drv h col w)
                                 (after drv (first_read h col) w))))
         (first_indicator drv h col w),
       store_chars (out_chars (fst (invoke drv (second_read drv h col w)
                                      (after drv (first_read h col) w))))
         (resize (store_chars (out_chars (fst (invoke drv (first_read h col) w)))
                    (replicate 1024 NUL))
            (nat (first_indicator drv h col w) + 1))),
      after drv (second_read drv h col w) (after drv (first_read h col) w))"
  by (simp only: get_string_data_read_eq if_True)





lemma get_string_data_null:
  "get_string_data_read drv h col w = ((rc, SQL_NULL_DATA, buffer), w1) \<Longrightarrow>
   get_string_data drv h col w = (Returns (Inr None), w1)"
  by (simp add: get_string_data_def)

lemma get_string_data_empty:
  "get_string_data_read drv h col w = ((rc, ind, buffer), w1) \<Longrightarrow>
   SQL_SUCCEEDED rc \<Longrightarrow> ind \<noteq> SQL_NULL_DATA \<Longrightarrow> ind \<le> 0 \<Longrightarrow>
   get_string_data drv h col w = (Returns (Inr (Some [])), w1)"
  by (simp add: get_string_data_def)

lemma get_string_data_bytes:
  "get_string_data_read drv h col w = ((rc, ind, buffer), w1) \<Longrightarrow>
   SQL_SUCCEEDED rc \<Longrightarrow> 0 < ind \<Longrightarrow> nat ind \<le> length buffer \<Longrightarrow>
   get_string_data drv h col w = (Returns (Inr (Some (take (nat ind) buffer))), w1)"
  by (simp add: get_string_data_def SQL_NULL_DATA_def)

lemmas run_simps = get_string_data_read_def invoke_scripted start_def text_reply_simps
  no_reply_simps value_or_simps Let_def after_def first_read_def second_read_def
  first_indicator_def retried_def length_store_chars length_resize




text \<open>
  Claim C4. When the indicator that the read (retried or not) leaves is the NULL sentinel,
  the result is ``value is NULL'', for every return code, success or not, and no
  diagnostic is fetched. The second and third conjunct say it of the driver's replies:
  a first reply that writes the NULL indicator, or a retry whose reply writes it.
\<close>

theorem text_null_whatever_the_code:
  "(case get_string_data_read drv (stmt_handle s) col w of
      ((rc, indicator, buffer), w1) \<Rightarrow>
        indicator = SQL_NULL_DATA \<longrightarrow> get_data_string drv s col w = (Returns (Inr None), w1))
   \<and> (out_len (fst (invoke drv (first_read (stmt_handle s) col) w)) = Some SQL_NULL_DATA \<longrightarrow>
        fst (get_data_string drv s col w) = Returns (Inr None))
   \<and> (retried drv (stmt_handle s) col w \<longrightarrow>
        out_len (fst (invoke drv (second_read drv (stmt_handle s) col w)
                        (after drv (first_read (stmt_handle s) col) w))) = Some SQL_NULL_DATA \<longrightarrow>
        fst (get_data_string drv s col w) = Returns (Inr None))"
proof -
  have 1: "case get_string_data_read drv (stmt_handle s) col w of
      ((rc, indicator, buffer), w1) \<Rightarrow>
        indicator = SQL_NULL_DATA \<longrightarrow> get_data_string drv s col w = (Returns (Inr None), w1)"
    by (auto simp: get_data_string_def get_string_data_null split: prod.splits)
  have 2: "fst (get_data_string drv s col w) = Returns (Inr None)"
    if n: "out_len (fst (invoke drv (first_read (stmt_handle s) col) w)) = Some SQL_NULL_DATA"
  proof -
    have i: "first_indicator drv (stmt_handle s) col w = SQL_NULL_DATA"
      using n by (simp add: first_indicator_def value_or_simps)
    then have "\<not> retried drv (stmt_handle s) col w"
      by (simp add: retried_def SQL_NULL_DATA_def)
    from get_string_data_read_once [OF this] i show ?thesis
      by (simp add: get_data_string_def get_string_data_null)
  qed
  have 3: "fst (get_data_string drv s col w) = Returns (Inr None)"
    if r: "retried drv (stmt_handle s) col w"
      and n: "out_len (fst (invoke drv (second_read drv (stmt_handle s) col w)
                        (after drv (first_read (stmt_handle s) col) w))) = Some SQL_NULL_DATA"
    using get_string_data_read_twice [OF r] n
    by (simp add: get_data_string_def get_string_data_null value_or_simps)
  from 1 2 3 show ?thesis by blast
qed

theorem text_null_whatever_the_code_witness:
  "fst (get_data_string scripted (Statement 2) 1 (start [text_reply SQL_SUCCESS SQL_NULL_DATA []]))
     = Returns (Inr None)
   \<and> fst (get_data_string scripted (Statement 2) 1 (start [text_reply SQL_ERROR SQL_NULL_DATA []]))
     = Returns (Inr None)
   \<and> fst (get_data_string scripted (Statement 2) 1
        (start [text_reply SQL_SUCCESS_WITH_INFO 2000 [], text_reply SQL_ERROR SQL_NULL_DATA []]))
     = Returns (Inr None)"
  using text_null_whatever_the_code [of scripted "Statement 2" 1
          "start [text_reply SQL_SUCCESS SQL_NULL_DATA []]"]
        text_null_whatever_the_code [of scripted "Statement 2" 1
          "start [text_reply SQL_ERROR SQL_NULL_DATA []]"]
        text_null_whatever_the_code [of scripted "Statement 2" 1
          "start [text_reply SQL_SUCCESS_WITH_INFO 2000 [], text_reply SQL_ERROR SQL_NULL_DATA []]"]
  by (simp add: run_simps SQL_SUCCESS_WITH_INFO_def SQL_NULL_DATA_def SQL_SUCCESS_def SQL_ERROR_def)

text \<open>
  A read that ended with a success code and an indicator other than the NULL sentinel:
  an indicator of zero or less gives the present empty string; a positive indicator within
  the length of the buffer gives the first \<open>indicator\<close> bytes of the buffer, a string of
  exactly that length.
\<close>

lemma get_data_string_present:
  "case get_string_data_read drv (stmt_handle s) col w of
     ((rc, indicator, buffer), w1) \<Rightarrow>
       SQL_SUCCEEDED rc \<longrightarrow> indicator \<noteq> SQL_NULL_DATA \<longrightarrow>
         (indicator \<le> 0 \<longrightarrow> fst (get_data_string drv s col w) = Returns (Inr (Some [])))
       \<and> (0 < indicator \<longrightarrow> nat indicator \<le> length buffer \<longrightarrow>
            fst (get_data_string drv s col w) = Returns (Inr (Some (take (nat indicator) buffer)))
            \<and> int (length (take (nat indicator) buffer)) = indicator)"
  by (auto simp: get_data_string_def get_string_data_empty get_string_data_bytes
        split: prod.splits)

lemma get_data_string_present_example:
  "fst (get_data_string scripted (Statement 2) 1
          (start [text_reply SQL_SUCCESS 5 (''First'' @ [NUL])]))
     = Returns (Inr (Some ''First''))
   \<and> fst (get_data_string scripted (Statement 2) 1 (start [text_reply SQL_SUCCESS 0 [NUL]]))
     = Returns (Inr (Some []))"
  using get_data_string_present [of scripted "Statement 2" 1
          "start [text_reply SQL_SUCCESS 5 (''First'' @ [NUL])]"]
        get_data_string_present [of scripted "Statement 2" 1 "start [text_reply SQL_SUCCESS 0 [NUL]]"]
  by (simp add: run_simps SQL_SUCCEEDED_iff SQL_SUCCESS_WITH_INFO_def SQL_NULL_DATA_def
        SQL_SUCCESS_def store_chars_def)

text \<open>
  Claim C10 is what the code sets out to do and misses where the indicator is larger than
  the buffer: nothing compares the two before \<^verbatim>\<open>str_value.assign(buffer.data(), indicator)\<close>.
  The first read reports success-with-info and length 2000, the buffer is resized to 2001
  bytes, and the second read reports success-with-info and length 5000. This is a
  successful read with a positive indicator, and the string of 5000 bytes is read from a
  buffer of 2001: the read leaves the buffer.
\<close>

theorem text_read_past_buffer:
  "get_data_string scripted (Statement 2) 1
      (start [text_reply SQL_SUCCESS_WITH_INFO 2000 [], text_reply SQL_SUCCESS_WITH_INFO 5000 []])
     = (Reads_past_buffer,
        \<lparr>dstate = [],
         trace = [SQLGetData 2 1 SQL_C_CHAR 1024, SQLGetData 2 1 SQL_C_CHAR 2001],
         cerr = []\<rparr>)"
  by (simp add: get_data_string_def get_string_data_def run_simps SQL_SUCCEEDED_iff
        SQL_SUCCESS_WITH_INFO_def SQL_NULL_DATA_def)

section \<open>Reading a numeric column\<close>






section \<open>Moving and destroying handles\<close>

lemma trace_write_cerr: "trace (write_cerr l w) = trace w"
  by (simp add: write_cerr_def)

lemma trace_Connection_release:
  "trace (Connection_release drv h w) = trace w @ [SQLDisconnect h, SQLFreeHandle SQL_HANDLE_DBC h]"
  by (simp add: Connection_release_def trace_invoke)

lemma trace_Environment_dtor:
  "trace (Environment_dtor drv e w) = trace w @ release_calls SQL_HANDLE_ENV (env_handle e)"
  by (simp add: Environment_dtor_def release_calls_def trace_invoke)

lemma trace_Connection_dtor:
  "trace (Connection_dtor drv c w) = trace w @ release_calls SQL_HANDLE_DBC (conn_handle c)"
  by (simp add: Connection_dtor_def release_calls_def trace_Connection_release trace_write_cerr)

lemma trace_Statement_dtor:
  "trace (Statement_dtor drv s w) = trace w @ release_calls SQL_HANDLE_STMT (stmt_handle s)"
  by (simp add: Statement_dtor_def release_calls_def trace_invoke)

lemma Environment_move_assign_distinct:
  "this \<noteq> other \<Longrightarrow>
   fst (Environment_move_assign drv this other mem w)
     = mem(other := Environment nullptr, this := Environment (env_handle (mem other)))
   \<and> trace (snd (Environment_move_assign drv this other mem w))
     = trace w @ release_calls SQL_HANDLE_ENV (env_handle (mem this))"
  by (simp add: Environment_move_assign_def release_calls_def trace_invoke Let_def)

lemma Connection_move_assign_distinct:
  "this \<noteq> other \<Longrightarrow>
   fst (Connection_move_assign drv this other mem w)
     = mem(other := Connection nullptr, this := Connection (conn_handle (mem other)))
   \<and> trace (snd (Connection_move_assign drv this other mem w))
     = trace w @ release_calls SQL_HANDLE_DBC (conn_handle (mem this))"
  by (simp add: Connection_move_assign_def release_calls_def trace_Connection_release Let_def)

lemma Statement_move_assign_distinct:
  "this \<noteq> other \<Longrightarrow>
   fst (Statement_move_assign drv this other mem w)
     = mem(other := Statement nullptr, this := Statement (stmt_handle (mem other)))
   \<and> trace (snd (Statement_move_assign drv this other mem w))
     = trace w @ release_calls SQL_HANDLE_STMT (stmt_handle (mem this))"
  by (simp add: Statement_move_assign_def release_calls_def trace_invoke Let_def)

lemma release_calls_nullptr: "release_calls ht nullptr = []"
  by (simp add: release_calls_def)

lemma count_release_calls:
  "a \<noteq> nullptr \<Longrightarrow> a \<noteq> b \<Longrightarrow>
   count_list (release_calls ht a @ release_calls ht b) (SQLFreeHandle ht a) = 1"
  by (cases ht) (simp_all add: release_calls_def)

lemma count_release_calls':
  "b \<noteq> nullptr \<Longrightarrow> a \<noteq> b \<Longrightarrow>
   count_list (release_calls ht a @ release_calls ht b) (SQLFreeHandle ht b) = 1"
  by (cases ht) (simp_all add: release_calls_def)

lemma calls_sinceI: "trace w' = trace w @ cs \<Longrightarrow> calls_since w w' = cs"
  by (simp add: calls_since_def)

lemma Environment_assign_and_destroy_calls:
  assumes "this \<noteq> other"
  shows "calls_since w (Environment_assign_and_destroy drv this other mem w)
         = release_calls SQL_HANDLE_ENV (env_handle (mem this)) @ release_calls SQL_HANDLE_ENV (env_handle (mem other))"
  using Environment_move_assign_distinct [OF assms, of drv mem w]
  by (intro calls_sinceI)
     (simp add: Environment_assign_and_destroy_def case_prod_unfold trace_Environment_dtor
        release_calls_nullptr assms not_sym [OF assms])

lemma Environment_move_and_destroy_calls:
  "calls_since w (Environment_move_and_destroy drv x w) = release_calls SQL_HANDLE_ENV (env_handle x)"
  by (intro calls_sinceI)
     (simp add: Environment_move_and_destroy_def Environment_move_def trace_Environment_dtor release_calls_nullptr)

lemma Environment_moves:
  "Environment_move x = (Environment (env_handle x), Environment nullptr)
   \<and> Environment_dtor drv (Environment nullptr) w = w
   \<and> Environment_move_assign drv this this mem w = (mem, w)
   \<and> (this \<noteq> other \<longrightarrow>
        fst (Environment_move_assign drv this other mem w) this = Environment (env_handle (mem other))
      \<and> fst (Environment_move_assign drv this other mem w) other = Environment nullptr
      \<and> calls_since w (snd (Environment_move_assign drv this other mem w))
          = release_calls SQL_HANDLE_ENV (env_handle (mem this))
      \<and> calls_since w (Environment_assign_and_destroy drv this other mem w)
          = release_calls SQL_HANDLE_ENV (env_handle (mem this)) @ release_calls SQL_HANDLE_ENV (env_handle (mem other))
      \<and> (env_handle (mem this) \<noteq> nullptr \<longrightarrow> env_handle (mem this) \<noteq> env_handle (mem other) \<longrightarrow>
           count_list (calls_since w (Environment_assign_and_destroy drv this other mem w))
             (SQLFreeHandle SQL_HANDLE_ENV (env_handle (mem this))) = 1)
      \<and> (env_handle (mem other) \<noteq> nullptr \<longrightarrow> env_handle (mem this) \<noteq> env_handle (mem other) \<longrightarrow>
           count_list (calls_since w (Environment_assign_and_destroy drv this other mem w))
             (SQLFreeHandle SQL_HANDLE_ENV (env_handle (mem other))) = 1))
   \<and> (env_handle x \<noteq> nullptr \<longrightarrow>
        count_list (calls_since w (Environment_move_and_destroy drv x w)) (SQLFreeHandle SQL_HANDLE_ENV (env_handle x)) = 1)"
proof -
  have a: "Environment_move x = (Environment (env_handle x), Environment nullptr)"
    by (simp add: Environment_move_def)
  have b: "Environment_dtor drv (Environment nullptr) w = w"
    by (simp add: Environment_dtor_def)
  have c: "Environment_move_assign drv this this mem w = (mem, w)"
    by (simp add: Environment_move_assign_def)
  have d: "fst (Environment_move_assign drv this other mem w) this = Environment (env_handle (mem other))
      \<and> fst (Environment_move_assign drv this other mem w) other = Environment nullptr
      \<and> calls_since w (snd (Environment_move_assign drv this other mem w))
          = release_calls SQL_HANDLE_ENV (env_handle (mem this))" if "this \<noteq> other"
    using Environment_move_assign_distinct [OF that, of drv mem w] that
    by (simp add: calls_sinceI)
  have e: "count_list (calls_since w (Environment_assign_and_destroy drv this other mem w))
             (SQLFreeHandle SQL_HANDLE_ENV (env_handle (mem this))) = 1"
    if "this \<noteq> other" "env_handle (mem this) \<noteq> nullptr" "env_handle (mem this) \<noteq> env_handle (mem other)"
    using that by (simp add: Environment_assign_and_destroy_calls count_release_calls del: count_list_append)
  have f: "count_list (calls_since w (Environment_assign_and_destroy drv this other mem w))
             (SQLFreeHandle SQL_HANDLE_ENV (env_handle (mem other))) = 1"
    if "this \<noteq> other" "env_handle (mem other) \<noteq> nullptr" "env_handle (mem this) \<noteq> env_handle (mem other)"
    using that by (simp add: Environment_assign_and_destroy_calls count_release_calls' del: count_list_append)
  have g: "count_list (calls_since w (Environment_move_and_destroy drv x w)) (SQLFreeHandle SQL_HANDLE_ENV (env_handle x)) = 1"
    if "env_handle x \<noteq> nullptr"
    using that by (simp add: Environment_move_and_destroy_calls release_calls_def)
  from a b c d e f g Environment_assign_and_destroy_calls [of this other w drv mem]
  show ?thesis by blast
qed

lemma Connection_assign_and_destroy_calls:
  assumes "this \<noteq> other"
  shows "calls_since w (Connection_assign_and_destroy drv this other mem w)
         = release_calls SQL_HANDLE_DBC (conn_handle (mem this)) @ release_calls SQL_HANDLE_DBC (conn_handle (mem other))"
  using Connection_move_assign_distinct [OF assms, of drv mem w]
  by (intro calls_sinceI)
     (simp add: Connection_assign_and_destroy_def case_prod_unfold trace_Connection_dtor
        release_calls_nullptr assms not_sym [OF assms])

lemma Connection_move_and_destroy_calls:
  "calls_since w (Connection_move_and_destroy drv x w) = release_calls SQL_HANDLE_DBC (conn_handle x)"
  by (intro calls_sinceI)
     (simp add: Connection_move_and_destroy_def Connection_move_def trace_Connection_dtor release_calls_nullptr)

lemma Connection_moves:
  "Connection_move x = (Connection (conn_handle x), Connection nullptr)
   \<and> Connection_dtor drv (Connection nullptr) w = w
   \<and> Connection_move_assign drv this this mem w = (mem, w)
   \<and> (this \<noteq> other \<longrightarrow>
        fst (Connection_move_assign drv this other mem w) this = Connection (conn_handle (mem other))
      \<and> fst (Connection_move_assign drv this other mem w) other = Connection nullptr
      \<and> calls_since w (snd (Connection_move_assign drv this other mem w))
          = release_calls SQL_HANDLE_DBC (conn_handle (mem this))
      \<and> calls_since w (Connection_assign_and_destroy drv this other mem w)
          = release_calls SQL_HANDLE_DBC (conn_handle (mem this)) @ release_calls SQL_HANDLE_DBC (conn_handle (mem other))
      \<and> (conn_handle (mem this) \<noteq> nullptr \<longrightarrow> conn_handle (mem this) \<noteq> conn_handle (mem other) \<longrightarrow>
           count_list (calls_since w (Connection_assign_and_destroy drv this other mem w))
             (SQLFreeHandle SQL_HANDLE_DBC (conn_handle (mem this))) = 1)
      \<and> (conn_handle (mem other) \<noteq> nullptr \<longrightarrow> conn_handle (mem this) \<noteq> conn_handle (mem other) \<longrightarrow>
           count_list (calls_since w (Connection_assign_and_destroy drv this other mem w))
             (SQLFreeHandle SQL_HANDLE_DBC (conn_handle (mem other))) = 1))
   \<and> (conn_handle x \<noteq> nullptr \<longrightarrow>
        count_list (calls_since w (Connection_move_and_destroy drv x w)) (SQLFreeHandle SQL_HANDLE_DBC (conn_handle x)) = 1)"
proof -
  have a: "Connection_move x = (Connection (conn_handle x), Connection nullptr)"
    by (simp add: Connection_move_def)
  have b: "Connection_dtor drv (Connection nullptr) w = w"
    by (simp add: Connection_dtor_def)
  have c: "Connection_move_assign drv this this mem w = (mem, w)"
    by (simp add: Connection_move_assign_def)
  have d: "fst (Connection_move_assign drv this other mem w) this = Connection (conn_handle (mem other))
      \<and> fst (Connection_move_assign drv this other mem w) other = Connection nullptr
      \<and> calls_since w (snd (Connection_move_assign drv this other mem w))
          = release_calls SQL_HANDLE_DBC (conn_handle (mem this))" if "this \<noteq> other"
    using Connection_move_assign_distinct [OF that, of drv mem w] that
    by (simp add: calls_sinceI)
  have e: "count_list (calls_since w (Connection_assign_and_destroy drv this other mem w))
             (SQLFreeHandle SQL_HANDLE_DBC (conn_handle (mem this))) = 1"
    if "this \<noteq> other" "conn_handle (mem this) \<noteq> nullptr" "conn_handle (mem this) \<noteq> conn_handle (mem other)"
    using that by (simp add: Connection_assign_and_destroy_calls count_release_calls del: count_list_append)
  have f: "count_list (calls_since w (Connection_assign_and_destroy drv this other mem w))
             (SQLFreeHandle SQL_HANDLE_DBC (conn_handle (mem other))) = 1"
    if "this \<noteq> other" "conn_handle (mem other) \<noteq> nullptr" "conn_handle (mem this) \<noteq> conn_handle (mem other)"
    using that by (simp add: Connection_assign_and_destroy_calls count_release_calls' del: count_list_append)
  have g: "count_list (calls_since w (Connection_move_and_destroy drv x w)) (SQLFreeHandle SQL_HANDLE_DBC (conn_handle x)) = 1"
    if "conn_handle x \<noteq> nullptr"
    using that by (simp add: Connection_move_and_destroy_calls release_calls_def)
  from a b c d e f g Connection_assign_and_destroy_calls [of this other w drv mem]
  show ?thesis by blast
qed

lemma Statement_assign_and_destroy_calls:
  assumes "this \<noteq> other"
  shows "calls_since w (Statement_assign_and_destroy drv this other mem w)
         = release_calls SQL_HANDLE_STMT (stmt_handle (mem this)) @ release_calls SQL_HANDLE_STMT (stmt_handle (mem other))"
  using Statement_move_assign_distinct [OF assms, of drv mem w]
  by (intro calls_sinceI)
     (simp add: Statement_assign_and_destroy_def case_prod_unfold trace_Statement_dtor
        release_calls_nullptr assms not_sym [OF assms])

lemma Statement_move_and_destroy_calls:
  "calls_since w (Statement_move_and_destroy drv x w) = release_calls SQL_HANDLE_STMT (stmt_handle x)"
  by (intro calls_sinceI)
     (simp add: Statement_move_and_destroy_def Statement_move_def trace_Statement_dtor release_calls_nullptr)

lemma Statement_moves:
  "Statement_move x = (Statement (stmt_handle x), Statement nullptr)
   \<and> Statement_dtor drv (Statement nullptr) w = w
   \<and> Statement_move_assign drv this this mem w = (mem, w)
   \<and> (this \<noteq> other \<longrightarrow>
        fst (Statement_move_assign drv this other mem w) this = Statement (stmt_handle (mem other))
      \<and> fst (Statement_move_assign drv this other mem w) other = Statement nullptr
      \<and> calls_since w (snd (Statement_move_assign drv this other mem w))
          = release_calls SQL_HANDLE_STMT (stmt_handle (mem this))
      \<and> calls_since w (Statement_assign_and_destroy drv this other mem w)
          = release_calls SQL_HANDLE_STMT (stmt_handle (mem this)) @ release_calls SQL_HANDLE_STMT (stmt_handle (mem other))
      \<and> (stmt_handle (mem this) \<noteq> nullptr \<longrightarrow> stmt_handle (mem this) \<noteq> stmt_handle (mem other) \<longrightarrow>
           count_list (calls_since w (Statement_assign_and_destroy drv this other mem w))
             (SQLFreeHandle SQL_HANDLE_STMT (stmt_handle (mem this))) = 1)
      \<and> (stmt_handle (mem other) \<noteq> nullptr \<longrightarrow> stmt_handle (mem this) \<noteq> stmt_handle (mem other) \<longrightarrow>
           count_list (calls_since w (Statement_assign_and_destroy drv this other mem w))
             (SQLFreeHandle SQL_HANDLE_STMT (stmt_handle (mem other))) = 1))
   \<and> (stmt_handle x \<noteq> nullptr \<longrightarrow>
        count_list (calls_since w (Statement_move_and_destroy drv x w)) (SQLFreeHandle SQL_HANDLE_STMT (stmt_handle x)) = 1)"
proof -
  have a: "Statement_move x = (Statement (stmt_handle x), Statement nullptr)"
    by (simp add: Statement_move_def)
  have b: "Statement_dtor drv (Statement nullptr) w = w"
    by (simp add: Statement_dtor_def)
  have c: "Statement_move_assign drv this this mem w = (mem, w)"
    by (simp add: Statement_move_assign_def)
  have d: "fst (Statement_move_assign drv this other mem w) this = Statement (stmt_handle (mem other))
      \<and> fst (Statement_move_assign drv this other mem w) other = Statement nullptr
      \<and> calls_since w (snd (Statement_move_assign drv this other mem w))
          = release_calls SQL_HANDLE_STMT (stmt_handle (mem this))" if "this \<noteq> other"
    using Statement_move_assign_distinct [OF that, of drv mem w] that
    by (simp add: calls_sinceI)
  have e: "count_list (calls_since w (Statement_assign_and_destroy drv this other mem w))
             (SQLFreeHandle SQL_HANDLE_STMT (stmt_handle (mem this))) = 1"
    if "this \<noteq> other" "stmt_handle (mem this) \<noteq> nullptr" "stmt_handle (mem this) \<noteq> stmt_handle (mem other)"
    using that by (simp add: Statement_assign_and_destroy_calls count_release_calls del: count_list_append)
  have f: "count_list (calls_since w (Statement_assign_and_destroy drv this other mem w))
             (SQLFreeHandle SQL_HANDLE_STMT (stmt_handle (mem other))) = 1"
    if "this \<noteq> other" "stmt_handle (mem other) \<noteq> nullptr" "stmt_handle (mem this) \<noteq> stmt_handle (mem other)"
    using that by (simp add: Statement_assign_and_destroy_calls count_release_calls' del: count_list_append)
  have g: "count_list (calls_since w (Statement_move_and_destroy drv x w)) (SQLFreeHandle SQL_HANDLE_STMT (stmt_handle x)) = 1"
    if "stmt_handle x \<noteq> nullptr"
    using that by (simp add: Statement_move_and_destroy_calls release_calls_def)
  from a b c d e f g Statement_assign_and_destroy_calls [of this other w drv mem]
  show ?thesis by blast
qed

text \<open>
  Claim C7, for Environment, Connection and Statement alike. The move constructor gives
  the new object the source's handle and leaves the source empty. Move assignment between
  two different objects first releases the handle the target held (nothing when it was
  empty), then the target holds the source's handle and the source is empty; assigning an
  object to itself changes nothing. Destroying an empty object makes no call. So when both
  objects are destroyed after the move, the calls made are the release of the target's old
  handle and the release of the source's handle, and each handle is freed exactly once.
\<close>

theorem move_semantics:
  "(Environment_move x = (Environment (env_handle x), Environment nullptr)
   \<and> Environment_dtor drv (Environment nullptr) w = w
   \<and> Environment_move_assign drv this this emem w = (emem, w)
   \<and> (this \<noteq> other \<longrightarrow>
        fst (Environment_move_assign drv this other emem w) this = Environment (env_handle (emem other))
      \<and> fst (Environment_move_assign drv this other emem w) other = Environment nullptr
      \<and> calls_since w (snd (Environment_move_assign drv this other emem w))
          = release_calls SQL_HANDLE_ENV (env_handle (emem this))
      \<and> calls_since w (Environment_assign_and_destroy drv this other emem w)
          = release_calls SQL_HANDLE_ENV (env_handle (emem this)) @ release_calls SQL_HANDLE_ENV (env_handle (emem other))
      \<and> (env_handle (emem this) \<noteq> nullptr \<longrightarrow> env_handle (emem this) \<noteq> env_handle (emem other) \<longrightarrow>
           count_list (calls_since w (Environment_assign_and_destroy drv this other emem w))
             (SQLFreeHandle SQL_HANDLE_ENV (env_handle (emem this))) = 1)
      \<and> (env_handle (emem other) \<noteq> nullptr \<longrightarrow> env_handle (emem this) \<noteq> env_handle (emem other) \<longrightarrow>
           count_list (calls_since w (Environment_assign_and_destroy drv this other emem w))
             (SQLFreeHandle SQL_HANDLE_ENV (env_handle (emem other))) = 1))
   \<and> (env_handle x \<noteq> nullptr \<longrightarrow>
        count_list (calls_since w (Environment_move_and_destroy drv x w)) (SQLFreeHandle SQL_HANDLE_ENV (env_handle x)) = 1))
   \<and> (Connection_move c = (Connection (conn_handle c), Connection nullptr)
   \<and> Connection_dtor drv (Connection nullptr) w = w
   \<and> Connection_move_assign drv this this cmem w = (cmem, w)
   \<and> (this \<noteq> other \<longrightarrow>
        fst (Connection_move_assign drv this other cmem w) this = Connection (conn_handle (cmem other))
      \<and> fst (Connection_move_assign drv this other cmem w) other = Connection nullptr
      \<and> calls_since w (snd (Connection_move_assign drv this other cmem w))
          = release_calls SQL_HANDLE_DBC (conn_handle (cmem this))
      \<and> calls_since w (Connection_assign_and_destroy drv this other cmem w)
          = release_calls SQL_HANDLE_DBC (conn_handle (cmem this)) @ release_calls SQL_HANDLE_DBC (conn_handle (cmem other))
      \<and> (conn_handle (cmem this) \<noteq> nullptr \<longrightarrow> conn_handle (cmem this) \<noteq> conn_handle (cmem other) \<longrightarrow>
           count_list (calls_since w (Connection_assign_and_destroy drv this other cmem w))
             (SQLFreeHandle SQL_HANDLE_DBC (conn_handle (cmem this))) = 1)
      \<and> (conn_handle (cmem other) \<noteq> nullptr \<longrightarrow> conn_handle (cmem this) \<noteq> conn_handle (cmem other) \<longrightarrow>
           count_list (calls_since w (Connection_assign_and_destroy drv this other cmem w))
             (SQLFreeHandle SQL_HANDLE_DBC (conn_handle (cmem other))) = 1))
   \<and> (conn_handle c \<noteq> nullptr \<longrightarrow>
        count_list (calls_since w (Connection_move_and_destroy drv c w)) (SQLFreeHandle SQL_HANDLE_DBC (conn_handle c)) = 1))
   \<and> (Statement_move s = (Statement (stmt_handle s), Statement nullptr)
   \<and> Statement_dtor drv (Statement nullptr) w = w
   \<and> Statement_move_assign drv this this smem w = (smem, w)
   \<and> (this \<noteq> other \<longrightarrow>
        fst (Statement_move_assign drv this other smem w) this = Statement (stmt_handle (smem other))
      \<and> fst (Statement_move_assign drv this other smem w) other = Statement nullptr
      \<and> calls_since w (snd (Statement_move_assign drv this other smem w))
          = release_calls SQL_HANDLE_STMT (stmt_handle (smem this))
      \<and> calls_since w (Statement_assign_and_destroy drv this other smem w)
          = release_calls SQL_HANDLE_STMT (stmt_handle (smem this)) @ release_calls SQL_HANDLE_STMT (stmt_handle (smem other))
      \<and> (stmt_handle (smem this) \<noteq> nullptr \<longrightarrow> stmt_handle (smem this) \<noteq> stmt_handle (smem other) \<longrightarrow>
           count_list (calls_since w (Statement_assign_and_destroy drv this other smem w))
             (SQLFreeHandle SQL_HANDLE_STMT (stmt_handle (smem this))) = 1)
      \<and> (stmt_handle (smem other) \<noteq> nullptr \<longrightarrow> stmt_handle (smem this) \<noteq> stmt_handle (smem other) \<longrightarrow>
           count_list (calls_since w (Statement_assign_and_destroy drv this other smem w))
             (SQLFreeHandle SQL_HANDLE_STMT (stmt_handle (smem other))) = 1))
   \<and> (stmt_handle s \<noteq> nullptr \<longrightarrow>
        count_list (calls_since w (Statement_move_and_destroy drv s w)) (SQLFreeHandle SQL_HANDLE_STMT (stmt_handle s)) = 1))"
  by (rule conjI, rule Environment_moves, rule conjI, rule Connection_moves,
      rule Statement_moves)

theorem move_semantics_witness:
  "fst (Environment_move_assign scripted 0 1 ((\<lambda>a. Environment nullptr)(0 := Environment 5, 1 := Environment 6)) (start [])) 0 = Environment 6
   \<and> fst (Environment_move_assign scripted 0 1 ((\<lambda>a. Environment nullptr)(0 := Environment 5, 1 := Environment 6)) (start [])) 1 = Environment nullptr
   \<and> calls_since (start []) (snd (Environment_move_assign scripted 0 1 ((\<lambda>a. Environment nullptr)(0 := Environment 5, 1 := Environment 6)) (start []))) = [SQLFreeHandle SQL_HANDLE_ENV 5]
   \<and> calls_since (start []) (Environment_assign_and_destroy scripted 0 1 ((\<lambda>a. Environment nullptr)(0 := Environment 5, 1 := Environment 6)) (start [])) = [SQLFreeHandle SQL_HANDLE_ENV 5, SQLFreeHandle SQL_HANDLE_ENV 6]
   \<and> count_list (calls_since (start []) (Environment_assign_and_destroy scripted 0 1 ((\<lambda>a. Environment nullptr)(0 := Environment 5, 1 := Environment 6)) (start [])))
         (SQLFreeHandle SQL_HANDLE_ENV 5) = 1
   \<and> count_list (calls_since (start []) (Environment_assign_and_destroy scripted 0 1 ((\<lambda>a. Environment nullptr)(0 := Environment 5, 1 := Environment 6)) (start [])))
         (SQLFreeHandle SQL_HANDLE_ENV 6) = 1
   \<and> count_list (calls_since (start []) (Environment_move_and_destroy scripted (Environment 5) (start [])))
         (SQLFreeHandle SQL_HANDLE_ENV 5) = 1
   \<and> fst (Connection_move_assign scripted 0 1 ((\<lambda>a. Connection nullptr)(0 := Connection 5, 1 := Connection 6)) (start [])) 0 = Connection 6
   \<and> fst (Connection_move_assign scripted 0 1 ((\<lambda>a. Connection nullptr)(0 := Connection 5, 1 := Connection 6)) (start [])) 1 = Connection nullptr
   \<and> calls_since (start []) (snd (Connection_move_assign scripted 0 1 ((\<lambda>a. Connection nullptr)(0 := Connection 5, 1 := Connection 6)) (start []))) = [SQLDisconnect 5, SQLFreeHandle SQL_HANDLE_DBC 5]
   \<and> calls_since (start []) (Connection_assign_and_destroy scripted 0 1 ((\<lambda>a. Connection nullptr)(0 := Connection 5, 1 := Connection 6)) (start [])) = [SQLDisconnect 5, SQLFreeHandle SQL_HANDLE_DBC 5, SQLDisconnect 6, SQLFreeHandle SQL_HANDLE_DBC 6]
   \<and> count_list (calls_since (start []) (Connection_assign_and_destroy scripted 0 1 ((\<lambda>a. Connection nullptr)(0 := Connection 5, 1 := Connection 6)) (start [])))
         (SQLFreeHandle SQL_HANDLE_DBC 5) = 1
   \<and> count_list (calls_since (start []) (Connection_assign_and_destroy scripted 0 1 ((\<lambda>a. Connection nullptr)(0 := Connection 5, 1 := Connection 6)) (start [])))
         (SQLFreeHandle SQL_HANDLE_DBC 6) = 1
   \<and> count_list (calls_since (start []) (Connection_move_and_destroy scripted (Connection 5) (start [])))
         (SQLFreeHandle SQL_HANDLE_DBC 5) = 1
   \<and> fst (Statement_move_assign scripted 0 1 ((\<lambda>a. Statement nullptr)(0 := Statement 5, 1 := Statement 6)) (start [])) 0 = Statement 6
   \<and> fst (Statement_move_assign scripted 0 1 ((\<lambda>a. Statement nullptr)(0 := Statement 5, 1 := Statement 6)) (start [])) 1 = Statement nullptr
   \<and> calls_since (start []) (snd (Statement_move_assign scripted 0 1 ((\<lambda>a. Statement nullptr)(0 := Statement 5, 1 := Statement 6)) (start []))) = [SQLFreeHandle SQL_HANDLE_STMT 5]
   \<and> calls_since (start []) (Statement_assign_and_destroy scripted 0 1 ((\<lambda>a. Statement nullptr)(0 := Statement 5, 1 := Statement 6)) (start [])) = [SQLFreeHandle SQL_HANDLE_STMT 5, SQLFreeHandle SQL_HANDLE_STMT 6]
   \<and> count_list (calls_since (start []) (Statement_assign_and_destroy scripted 0 1 ((\<lambda>a. Statement nullptr)(0 := Statement 5, 1 := Statement 6)) (start [])))
         (SQLFreeHandle SQL_HANDLE_STMT 5) = 1
   \<and> count_list (calls_since (start []) (Statement_assign_and_destroy scripted 0 1 ((\<lambda>a. Statement nullptr)(0 := Statement 5, 1 := Statement 6)) (start [])))
         (SQLFreeHandle SQL_HANDLE_STMT 6) = 1
   \<and> count_list (calls_since (start []) (Statement_move_and_destroy scripted (Statement 5) (start [])))
         (SQLFreeHandle SQL_HANDLE_STMT 5) = 1"
  using move_semantics [of "Environment 5" scripted "start []" 0
          "(\<lambda>a. Environment nullptr)(0 := Environment 5, 1 := Environment 6)" 1
          "Connection 5" "(\<lambda>a. Connection nullptr)(0 := Connection 5, 1 := Connection 6)"
          "Statement 5" "(\<lambda>a. Statement nullptr)(0 := Statement 5, 1 := Statement 6)"]
  by (simp add: release_calls_def nullptr_def)

section \<open>Constructing handles\<close>

lemma Environment_ctor_cases:
  fixes drv :: "'d driver"
  defines "alloc \<equiv> SQLAllocHandle SQL_HANDLE_ENV nullptr"
  shows "(failed drv alloc w \<longrightarrow>
            Environment_ctor drv w
              = (Inl (OdbcSetupError ''ODBC: Failed to allocate environment handle.''),
                 after drv alloc w))
       \<and> (\<not> failed drv alloc w \<longrightarrow>
            failed drv (SQLSetEnvAttr (allocated (fst (invoke drv alloc w)))) (after drv alloc w) \<longrightarrow>
            fst (Environment_ctor drv w)
              = Inl (OdbcSetupError ''ODBC: Failed to set environment attribute to ODBC 3.0.'')
            \<and> calls_since w (snd (Environment_ctor drv w))
              = [alloc, SQLSetEnvAttr (allocated (fst (invoke drv alloc w))),
                 SQLFreeHandle SQL_HANDLE_ENV (allocated (fst (invoke drv alloc w)))])
       \<and> (\<not> failed drv alloc w \<longrightarrow>
            \<not> failed drv (SQLSetEnvAttr (allocated (fst (invoke drv alloc w)))) (after drv alloc w) \<longrightarrow>
            fst (Environment_ctor drv w) = Inr (Environment (allocated (fst (invoke drv alloc w)))))"
  by (simp add: Environment_ctor_def failed_def after_def alloc_def case_prod_unfold
        calls_since_def trace_invoke)

lemma Connection_ctor_cases:
  "(failed drv (SQLAllocHandle SQL_HANDLE_DBC (env_handle env)) w \<longrightarrow>
      fst (Connection_ctor drv env w)
        = Inl (OdbcSetupError ''ODBC: Failed to allocate connection handle.''))
   \<and> (\<not> failed drv (SQLAllocHandle SQL_HANDLE_DBC (env_handle env)) w \<longrightarrow>
      fst (Connection_ctor drv env w)
        = Inr (Connection (allocated (fst (invoke drv
                 (SQLAllocHandle SQL_HANDLE_DBC (env_handle env)) w)))))"
  by (simp add: Connection_ctor_def failed_def case_prod_unfold)

lemma Statement_ctor_cases:
  "(failed drv (SQLAllocHandle SQL_HANDLE_STMT (conn_handle conn)) w \<longrightarrow>
      fst (Statement_ctor drv conn w)
        = Inl (OdbcSetupError ''ODBC: Failed to allocate statement handle.''))
   \<and> (\<not> failed drv (SQLAllocHandle SQL_HANDLE_STMT (conn_handle conn)) w \<longrightarrow>
      fst (Statement_ctor drv conn w)
        = Inr (Statement (allocated (fst (invoke drv
                 (SQLAllocHandle SQL_HANDLE_STMT (conn_handle conn)) w)))))"
  by (simp add: Statement_ctor_def failed_def case_prod_unfold)

text \<open>
  Claim C8, as the code has it. \<open>Environment()\<close> allocates an environment handle and asks
  for ODBC 3; \<open>Connection(env)\<close> and \<open>Statement(conn)\<close> allocate from their parent. When the
  allocation fails (for the Environment also when the version cannot be set) the
  constructor throws \<open>OdbcSetupError\<close>; otherwise the object holds exactly the handle the
  allocation stored, so a default-constructed Environment is not empty whenever the driver
  stored a handle. The empty state is what a move leaves in its source.
\<close>

theorem handle_construction:
  "(failed drv (SQLAllocHandle SQL_HANDLE_ENV nullptr) w \<longrightarrow>
      fst (Environment_ctor drv w)
        = Inl (OdbcSetupError ''ODBC: Failed to allocate environment handle.''))
   \<and> (\<not> failed drv (SQLAllocHandle SQL_HANDLE_ENV nullptr) w \<longrightarrow>
      failed drv (SQLSetEnvAttr (allocated (fst (invoke drv (SQLAllocHandle SQL_HANDLE_ENV nullptr) w))))
        (after drv (SQLAllocHandle SQL_HANDLE_ENV nullptr) w) \<longrightarrow>
      fst (Environment_ctor drv w)
        = Inl (OdbcSetupError ''ODBC: Failed to set environment attribute to ODBC 3.0.''))
   \<and> (\<not> failed drv (SQLAllocHandle SQL_HANDLE_ENV nullptr) w \<longrightarrow>
      \<not> failed drv (SQLSetEnvAttr (allocated (fst (invoke drv (SQLAllocHandle SQL_HANDLE_ENV nullptr) w))))
        (after drv (SQLAllocHandle SQL_HANDLE_ENV nullptr) w) \<longrightarrow>
      fst (Environment_ctor drv w)
        = Inr (Environment (allocated (fst (invoke drv (SQLAllocHandle SQL_HANDLE_ENV nullptr) w)))))
   \<and> (\<not> failed drv (SQLAllocHandle SQL_HANDLE_ENV nullptr) w \<longrightarrow>
      \<not> failed drv (SQLSetEnvAttr (allocated (fst (invoke drv (SQLAllocHandle SQL_HANDLE_ENV nullptr) w))))
        (after drv (SQLAllocHandle SQL_HANDLE_ENV nullptr) w) \<longrightarrow>
      allocated (fst (invoke drv (SQLAllocHandle SQL_HANDLE_ENV nullptr) w)) \<noteq> nullptr \<longrightarrow>
      fst (Environment_ctor drv w) \<noteq> Inr (Environment nullptr))
   \<and> (failed drv (SQLAllocHandle SQL_HANDLE_DBC (env_handle env)) w \<longrightarrow>
      fst (Connection_ctor drv env w)
        = Inl (OdbcSetupError ''ODBC: Failed to allocate connection handle.''))
   \<and> (\<not> failed drv (SQLAllocHandle SQL_HANDLE_DBC (env_handle env)) w \<longrightarrow>
      fst (Connection_ctor drv env w)
        = Inr (Connection (allocated (fst (invoke drv
                 (SQLAllocHandle SQL_HANDLE_DBC (env_handle env)) w)))))
   \<and> (failed drv (SQLAllocHandle SQL_HANDLE_STMT (conn_handle conn)) w \<longrightarrow>
      fst (Statement_ctor drv conn w)
        = Inl (OdbcSetupError ''ODBC: Failed to allocate statement handle.''))
   \<and> (\<not> failed drv (SQLAllocHandle SQL_HANDLE_STMT (conn_handle conn)) w \<longrightarrow>
      fst (Statement_ctor drv conn w)
        = Inr (Statement (allocated (fst (invoke drv
                 (SQLAllocHandle SQL_HANDLE_STMT (conn_handle conn)) w)))))
   \<and> snd (Environment_move x) = Environment nullptr
   \<and> snd (Connection_move c) = Connection nullptr
   \<and> snd (Statement_move s) = Statement nullptr"
proof -
  note E = Environment_ctor_cases [of drv w]
  note C = Connection_ctor_cases [of drv env w]
  note S = Statement_ctor_cases [of drv conn w]
  have M: "snd (Environment_move x) = Environment nullptr"
    "snd (Connection_move c) = Connection nullptr"
    "snd (Statement_move s) = Statement nullptr"
    by (simp_all add: Environment_move_def Connection_move_def Statement_move_def)
  have E1: "failed drv (SQLAllocHandle SQL_HANDLE_ENV nullptr) w \<longrightarrow>
      fst (Environment_ctor drv w)
        = Inl (OdbcSetupError ''ODBC: Failed to allocate environment handle.'')"
    using E by simp
  have E2: "\<not> failed drv (SQLAllocHandle SQL_HANDLE_ENV nullptr) w \<longrightarrow>
      failed drv (SQLSetEnvAttr (allocated (fst (invoke drv (SQLAllocHandle SQL_HANDLE_ENV nullptr) w))))
        (after drv (SQLAllocHandle SQL_HANDLE_ENV nullptr) w) \<longrightarrow>
      fst (Environment_ctor drv w)
        = Inl (OdbcSetupError ''ODBC: Failed to set environment attribute to ODBC 3.0.'')"
    using E by blast
  have E3: "\<not> failed drv (SQLAllocHandle SQL_HANDLE_ENV nullptr) w \<longrightarrow>
      \<not> failed drv (SQLSetEnvAttr (allocated (fst (invoke drv (SQLAllocHandle SQL_HANDLE_ENV nullptr) w))))
        (after drv (SQLAllocHandle SQL_HANDLE_ENV nullptr) w) \<longrightarrow>
      fst (Environment_ctor drv w)
        = Inr (Environment (allocated (fst (invoke drv (SQLAllocHandle SQL_HANDLE_ENV nullptr) w))))"
    using E by blast
  have E4: "\<not> failed drv (SQLAllocHandle SQL_HANDLE_ENV nullptr) w \<longrightarrow>
      \<not> failed drv (SQLSetEnvAttr (allocated (fst (invoke drv (SQLAllocHandle SQL_HANDLE_ENV nullptr) w))))
        (after drv (SQLAllocHandle SQL_HANDLE_ENV nullptr) w) \<longrightarrow>
      allocated (fst (invoke drv (SQLAllocHandle SQL_HANDLE_ENV nullptr) w)) \<noteq> nullptr \<longrightarrow>
      fst (Environment_ctor drv w) \<noteq> Inr (Environment nullptr)"
    using E3 by auto
  from E1 E2 E3 E4 C S M show ?thesis by (intro conjI) blast+
qed

theorem handle_construction_witness:
  "fst (Environment_ctor scripted (start [no_reply]))
     = Inl (OdbcSetupError ''ODBC: Failed to allocate environment handle.'')
   \<and> fst (Environment_ctor scripted (start [handle_reply SQL_SUCCESS 7, no_reply]))
     = Inl (OdbcSetupError ''ODBC: Failed to set environment attribute to ODBC 3.0.'')
   \<and> fst (Environment_ctor scripted
            (start [handle_reply SQL_SUCCESS 7, no_reply\<lparr>ret := SQL_SUCCESS\<rparr>]))
     = Inr (Environment 7)
   \<and> fst (Connection_ctor scripted (Environment 7) (start [no_reply]))
     = Inl (OdbcSetupError ''ODBC: Failed to allocate connection handle.'')
   \<and> fst (Connection_ctor scripted (Environment 7) (start [handle_reply SQL_SUCCESS 8]))
     = Inr (Connection 8)
   \<and> fst (Statement_ctor scripted (Connection 8) (start [no_reply]))
     = Inl (OdbcSetupError ''ODBC: Failed to allocate statement handle.'')
   \<and> fst (Statement_ctor scripted (Connection 8) (start [handle_reply SQL_SUCCESS 9]))
     = Inr (Statement 9)"
  using handle_construction [of scripted "start [no_reply]" "Environment 7" "Connection 8"]
        handle_construction [of scripted "start [handle_reply SQL_SUCCESS 7, no_reply]"
          "Environment 7" "Connection 8"]
        handle_construction [of scripted
          "start [handle_reply SQL_SUCCESS 7, no_reply\<lparr>ret := SQL_SUCCESS\<rparr>]"
          "Environment 7" "Connection 8"]
        handle_construction [of scripted "start [handle_reply SQL_SUCCESS 8]"
          "Environment 7" "Connection 8"]
        handle_construction [of scripted "start [handle_reply SQL_SUCCESS 9]"
          "Environment 7" "Connection 8"]
  by (simp add: failed_def after_def invoke_scripted start_def handle_reply_simps no_reply_simps
        allocated_def value_or_simps SQL_SUCCEEDED_iff SQL_SUCCESS_def SQL_ERROR_def)

text \<open>
  Claim C8 as stated fails: default construction of an Environment, with a driver that
  hands out handle 7, gives an object that holds 7, not the empty object.
\<close>

theorem default_construction_counterexample:
  "fst (Environment_ctor scripted
          (start [handle_reply SQL_SUCCESS 7, no_reply\<lparr>ret := SQL_SUCCESS\<rparr>]))
     = Inr (Environment 7)
   \<and> Environment 7 \<noteq> Environment nullptr"
  by (simp add: Environment_ctor_def invoke_scripted start_def handle_reply_simps allocated_def
        value_or_simps SQL_SUCCEEDED_iff SQL_SUCCESS_def nullptr_def)

section \<open>The connection pool\<close>

lemma getConnection_hit:
  "connections p alias = Some c \<Longrightarrow>
   getConnection drv alias cs p w = (Inr (Connections_at alias), p, w)"
  by (simp add: getConnection_def)

lemma Connection_ctor_eq:
  "Connection_ctor drv env w =
     (if failed drv (SQLAllocHandle SQL_HANDLE_DBC (env_handle env)) w
      then Inl (OdbcSetupError ''ODBC: Failed to allocate connection handle.'')
      else Inr (Connection (allocated (fst (invoke drv
                  (SQLAllocHandle SQL_HANDLE_DBC (env_handle env)) w)))),
      after drv (SQLAllocHandle SQL_HANDLE_DBC (env_handle env)) w)"
  by (simp add: Connection_ctor_def failed_def after_def case_prod_unfold)

lemma driver_connect_eq:
  "driver_connect drv c cs w =
     (if failed drv (SQLDriverConnect (conn_handle c) (c_str (cs @ [NUL]))) w
      then (Inl (record_or (fst (get_diagnostic_record drv (conn_handle c) SQL_HANDLE_DBC
                    (after drv (SQLDriverConnect (conn_handle c) (c_str (cs @ [NUL]))) w)))
                  (generic_error ''Unknown connection error via DriverConnect'')),
            snd (get_diagnostic_record drv (conn_handle c) SQL_HANDLE_DBC
                    (after drv (SQLDriverConnect (conn_handle c) (c_str (cs @ [NUL]))) w)))
      else (Inr (), write_cerr Connection_established_successfully
                      (after drv (SQLDriverConnect (conn_handle c) (c_str (cs @ [NUL]))) w)))"
  by (simp add: driver_connect_def failed_def after_def generic_error_def case_prod_unfold)

lemma driver_connect_connect_error:
  "connect_fails drv p alias cs w \<Longrightarrow>
   fst (driver_connect drv (Connection (new_handle drv p alias w)) cs
          (after drv (alloc_call p) (attempt_world alias w)))
     = Inl (connect_error drv p alias cs w)"
  by (simp add: connect_fails_def connect_error_def connect_call_def driver_connect_eq)

lemma getConnection_miss_fail:
  assumes "connections p alias = None" and "connect_fails drv p alias cs w"
  shows "fst (getConnection drv alias cs p w)
           = Inl (ConnectionPoolError (map_behaviour (pool_error_message alias) (connect_error drv p alias cs w)))
         \<and> fst (snd (getConnection drv alias cs p w)) = p"
  using assms
  by (simp add: getConnection_def connect_fails_def connect_error_def connect_call_def
        new_handle_def alloc_call_def attempt_world_def Connection_ctor_eq driver_connect_eq)

lemma getConnection_miss_alloc_fail:
  assumes "connections p alias = None" and "failed drv (alloc_call p) (attempt_world alias w)"
  shows "getConnection drv alias cs p w
           = (Inl (OdbcSetupError ''ODBC: Failed to allocate connection handle.''), p,
              after drv (alloc_call p) (attempt_world alias w))"
  using assms
  by (simp add: getConnection_def alloc_call_def attempt_world_def Connection_ctor_eq)

lemma getConnection_miss_ok:
  assumes "connections p alias = None" and "connect_succeeds drv p alias cs w"
  shows "fst (getConnection drv alias cs p w) = Inr (Connections_at alias)
         \<and> fst (snd (getConnection drv alias cs p w))
           = p\<lparr>connections := (connections p)(alias \<mapsto> Connection (new_handle drv p alias w))\<rparr>"
  using assms
  by (simp add: getConnection_def connect_succeeds_def connect_call_def
        new_handle_def alloc_call_def attempt_world_def Connection_ctor_eq driver_connect_eq
        Connection_move_def)

lemma getConnection_Inr:
  assumes "getConnection drv alias cs p w = (Inr r, p', w')"
  shows "r = Connections_at alias \<and> connections p' alias \<noteq> None"
proof (cases "connections p alias")
  case (Some c)
  with assms show ?thesis by (simp add: getConnection_hit)
next
  case None
  show ?thesis
  proof (cases "failed drv (alloc_call p) (attempt_world alias w)")
    case True
    with None assms show ?thesis by (simp add: getConnection_miss_alloc_fail)
  next
    case af: False
    show ?thesis
    proof (cases "failed drv (connect_call drv p alias cs w)
                    (after drv (alloc_call p) (attempt_world alias w))")
      case True
      with af have "connect_fails drv p alias cs w" by (simp add: connect_fails_def)
      from getConnection_miss_fail [OF None this] assms show ?thesis by simp
    next
      case False
      with af have "connect_succeeds drv p alias cs w" by (simp add: connect_succeeds_def)
      from getConnection_miss_ok [OF None this] assms show ?thesis by auto
    qed
  qed
qed

lemma getThreadLocalConnection_Inr:
  assumes "getThreadLocalConnection drv tid alias cs pools w = (Inr r, pools', w')"
  shows "r = Connections_at alias \<and> (\<exists>p. pools' tid = Some p \<and> connections p alias \<noteq> None)"
proof -
  have *: "r = Connections_at alias \<and> (\<exists>q. pools' tid = Some q \<and> connections q alias \<noteq> None)"
    if "getConnection drv alias cs p w0 = (res, p', w')" "res = Inr r" "pools' = pools(tid \<mapsto> p')"
    for p w0 res p'
    using getConnection_Inr [of drv "alias" cs p w0 r "p'" "w'"] that by simp
  show ?thesis
  proof (cases "pools tid")
    case (Some p)
    obtain res p' w2 where g: "getConnection drv alias cs p w = (res, p', w2)"
      by (metis prod_cases3)
    with Some assms have "res = Inr r" "pools' = pools(tid \<mapsto> p')" "w2 = w'"
      by (simp_all add: getThreadLocalConnection_def)
    with g show ?thesis using * by blast
  next
    case None
    show ?thesis
    proof (cases "ThreadLocalConnectionPool_ctor drv w")
      case (Pair x w1)
      show ?thesis
      proof (cases x)
        case (Inl e)
        with None Pair assms show ?thesis by (simp add: getThreadLocalConnection_def)
      next
        case (Inr p)
        obtain res p' w2 where g: "getConnection drv alias cs p w1 = (res, p', w2)"
          by (metis prod_cases3)
        with None Pair Inr assms have "res = Inr r" "pools' = pools(tid \<mapsto> p')" "w2 = w'"
          by (simp_all add: getThreadLocalConnection_def)
        with g show ?thesis using * by blast
      qed
    qed
  qed
qed

lemma getThreadLocalConnection_hit:
  assumes "pools tid = Some p" "connections p alias = Some c"
  shows "getThreadLocalConnection drv tid alias cs pools w = (Inr (Connections_at alias), pools, w)"
  using assms by (simp add: getThreadLocalConnection_def getConnection_hit fun_upd_idem)

lemmas pool_run_simps = getThreadLocalConnection_def ThreadLocalConnectionPool_ctor_def
  Environment_ctor_def getConnection_def Connection_ctor_def driver_connect_def
  Connection_move_def Connection_dtor_def Connection_release_def get_diagnostic_record_def
  invoke_scripted start_def write_cerr_def handle_reply_simps no_reply_simps ok_reply_simps
  diag_reply_simps allocated_def value_or_simps record_or_simps Let_def store_chars_def
  SQL_MAX_MESSAGE_LENGTH_def SQL_SUCCEEDED_iff SQL_SUCCESS_def SQL_ERROR_def
  SQL_NO_DATA_def nullptr_def c_str_def NUL_def

text \<open>
  Claim C1. When the alias is in the cache, \<open>getConnection\<close> returns the reference to the
  cached Connection whatever connection string it is given, and leaves the pool and the
  world as they were: no driver call, no log line. Hence on every thread, if a first
  request for alias \<open>A\<close> with string \<open>S1\<close> returns a reference, a second request for \<open>A\<close> with
  any string \<open>S2\<close> returns the same reference, which denotes a Connection of that thread's
  pool, and changes nothing.
\<close>

theorem same_connection_on_hit:
  "(connections p A = Some c \<longrightarrow>
      getConnection drv A S p w = (Inr (Connections_at A), p, w)
      \<and> deref p (Connections_at A) = Some c)
   \<and> (getThreadLocalConnection drv t A S1 pools w = (Inr r, pools1, w1) \<longrightarrow>
      getThreadLocalConnection drv t A S2 pools1 w1 = (Inr r, pools1, w1)
      \<and> resolve pools1 t r \<noteq> None)"
proof -
  have 1: "connections p A = Some c \<longrightarrow>
      getConnection drv A S p w = (Inr (Connections_at A), p, w)
      \<and> deref p (Connections_at A) = Some c"
    by (simp add: getConnection_hit deref_def)
  have 2: "getThreadLocalConnection drv t A S2 pools1 w1 = (Inr r, pools1, w1)
      \<and> resolve pools1 t r \<noteq> None"
    if h: "getThreadLocalConnection drv t A S1 pools w = (Inr r, pools1, w1)"
  proof -
    from getThreadLocalConnection_Inr [OF h]
    obtain q c' where r: "r = Connections_at A" and q: "pools1 t = Some q"
      and c: "connections q A = Some c'"
      by auto
    from getThreadLocalConnection_hit [of pools1 t q A c' drv S2 w1] r q c show ?thesis
      by (simp add: resolve_def deref_def)
  qed
  from 1 2 show ?thesis by blast
qed

theorem same_connection_on_hit_witness:
  "getConnection scripted ''DB'' ''dsn=other''
       \<lparr>pool_env = Environment 7, connections = [''DB'' \<mapsto> Connection 8]\<rparr> (start [])
     = (Inr (Connections_at ''DB''),
        \<lparr>pool_env = Environment 7, connections = [''DB'' \<mapsto> Connection 8]\<rparr>, start [])
   \<and> getThreadLocalConnection scripted 1 ''DB'' ''dsn=one'' Map.empty
       (start [handle_reply SQL_SUCCESS 7, ok_reply, handle_reply SQL_SUCCESS 8, ok_reply])
     = (Inr (Connections_at ''DB''),
        [1 \<mapsto> \<lparr>pool_env = Environment 7, connections = [''DB'' \<mapsto> Connection 8]\<rparr>],
        \<lparr>dstate = [],
         trace = [SQLAllocHandle SQL_HANDLE_ENV 0, SQLSetEnvAttr 7,
                  SQLAllocHandle SQL_HANDLE_DBC 7, SQLDriverConnect 8 ''dsn=one''],
         cerr = [Creating_new_connection ''DB'', Connection_established_successfully]\<rparr>)
   \<and> getThreadLocalConnection scripted 1 ''DB'' ''dsn=two''
       [1 \<mapsto> \<lparr>pool_env = Environment 7, connections = [''DB'' \<mapsto> Connection 8]\<rparr>]
        \<lparr>dstate = [],
         trace = [SQLAllocHandle SQL_HANDLE_ENV 0, SQLSetEnvAttr 7,
                  SQLAllocHandle SQL_HANDLE_DBC 7, SQLDriverConnect 8 ''dsn=one''],
         cerr = [Creating_new_connection ''DB'', Connection_established_successfully]\<rparr>
     = (Inr (Connections_at ''DB''),
        [1 \<mapsto> \<lparr>pool_env = Environment 7, connections = [''DB'' \<mapsto> Connection 8]\<rparr>],
        \<lparr>dstate = [],
         trace = [SQLAllocHandle SQL_HANDLE_ENV 0, SQLSetEnvAttr 7,
                  SQLAllocHandle SQL_HANDLE_DBC 7, SQLDriverConnect 8 ''dsn=one''],
         cerr = [Creating_new_connection ''DB'', Connection_established_successfully]\<rparr>)"
proof -
  let ?p = "\<lparr>pool_env = Environment 7, connections = [''DB'' \<mapsto> Connection 8]\<rparr>"
  let ?w1 = "\<lparr>dstate = [],
         trace = [SQLAllocHandle SQL_HANDLE_ENV 0, SQLSetEnvAttr 7,
                  SQLAllocHandle SQL_HANDLE_DBC 7, SQLDriverConnect 8 ''dsn=one''],
         cerr = [Creating_new_connection ''DB'', Connection_established_successfully]\<rparr>
         :: reply list world"
  note t = same_connection_on_hit [of ?p "''DB''" "Connection 8" scripted "''dsn=other''"
      "start []"]
  note u = same_connection_on_hit [of ?p "''DB''" "Connection 8" scripted "''dsn=other''"
      "start [handle_reply SQL_SUCCESS 7, ok_reply, handle_reply SQL_SUCCESS 8, ok_reply]"
      1 "''dsn=one''" Map.empty "Connections_at ''DB''" "[1 \<mapsto> ?p]" ?w1 "''dsn=two''"]
  have cached: "connections ?p ''DB'' = Some (Connection 8)"
    by simp
  have first: "getThreadLocalConnection scripted 1 ''DB'' ''dsn=one'' Map.empty
       (start [handle_reply SQL_SUCCESS 7, ok_reply, handle_reply SQL_SUCCESS 8, ok_reply])
     = (Inr (Connections_at ''DB''), [1 \<mapsto> ?p], ?w1)"
    by (simp add: pool_run_simps)
  from t cached have hit: "getConnection scripted ''DB'' ''dsn=other'' ?p (start [])
     = (Inr (Connections_at ''DB''), ?p, start [])"
    by blast
  from u first
  have second: "getThreadLocalConnection scripted 1 ''DB'' ''dsn=two'' [1 \<mapsto> ?p] ?w1
     = (Inr (Connections_at ''DB''), [1 \<mapsto> ?p], ?w1)"
    by blast
  from hit first second show ?thesis by blast
qed

text \<open>
  A rejected connection string. The alias is not cached and the driver, having allocated
  the connection handle, rejects the string. Then \<open>getConnection\<close> throws
  \<open>ConnectionPoolError\<close> whose message is formatted from the alias and the error
  \<^verbatim>\<open>driver_connect\<close> returned, and the pool is unchanged, the alias still absent. If in the
  world this leaves the driver accepts the string of a later request for the same alias,
  that request returns the reference and the alias is cached with the new Connection,
  the other entries untouched.
\<close>

lemma getConnection_rejected_then_accepted:
  "connections p A = None \<longrightarrow> connect_fails drv p A S w \<longrightarrow>
     fst (driver_connect drv (Connection (new_handle drv p A w)) S
            (after drv (alloc_call p) (attempt_world A w)))
       = Inl (connect_error drv p A S w)
     \<and> (case getConnection drv A S p w of
        (res, p', w') \<Rightarrow>
          res = Inl (ConnectionPoolError (map_behaviour (pool_error_message A) (connect_error drv p A S w)))
          \<and> p' = p \<and> connections p' A = None
          \<and> (connect_succeeds drv p' A S' w' \<longrightarrow>
               (case getConnection drv A S' p' w' of
                  (res2, p2, w2) \<Rightarrow>
                    res2 = Inr (Connections_at A)
                    \<and> connections p2 A = Some (Connection (new_handle drv p' A w'))
                    \<and> (\<forall>B. B \<noteq> A \<longrightarrow> connections p2 B = connections p B))))"
proof (intro impI)
  assume absent: "connections p A = None" and fails: "connect_fails drv p A S w"
  obtain res p' w' where g: "getConnection drv A S p w = (res, p', w')"
    by (metis prod_cases3)
  from getConnection_miss_fail [OF absent fails] g
  have res: "res = Inl (ConnectionPoolError (map_behaviour (pool_error_message A) (connect_error drv p A S w)))"
    and p': "p' = p"
    by simp_all
  have retry: "res2 = Inr (Connections_at A)
      \<and> connections p2 A = Some (Connection (new_handle drv p' A w'))
      \<and> (\<forall>B. B \<noteq> A \<longrightarrow> connections p2 B = connections p B)"
    if ok: "connect_succeeds drv p' A S' w'" and g2: "getConnection drv A S' p' w' = (res2, p2, w2)"
    for res2 p2 w2
    using getConnection_miss_ok [of p' A drv S' w'] absent p' ok g2 by auto
  show "fst (driver_connect drv (Connection (new_handle drv p A w)) S
            (after drv (alloc_call p) (attempt_world A w)))
       = Inl (connect_error drv p A S w)
     \<and> (case getConnection drv A S p w of
        (res, p', w') \<Rightarrow>
          res = Inl (ConnectionPoolError (map_behaviour (pool_error_message A) (connect_error drv p A S w)))
          \<and> p' = p \<and> connections p' A = None
          \<and> (connect_succeeds drv p' A S' w' \<longrightarrow>
               (case getConnection drv A S' p' w' of
                  (res2, p2, w2) \<Rightarrow>
                    res2 = Inr (Connections_at A)
                    \<and> connections p2 A = Some (Connection (new_handle drv p' A w'))
                    \<and> (\<forall>B. B \<noteq> A \<longrightarrow> connections p2 B = connections p B))))"
    using g res p' absent retry driver_connect_connect_error [OF fails]
    by (auto split: prod.splits)
qed

text \<open>
  A rejected string, with a diagnostic record, and then an accepted one. The message is
  spelt out; the rejected connection is disconnected and freed by its destructor.
\<close>

lemma getConnection_rejected_then_accepted_example:
  "getConnection scripted ''DB'' ''dsn=bad'' \<lparr>pool_env = Environment 7, connections = Map.empty\<rparr>
       (start [handle_reply SQL_SUCCESS 8, no_reply,
               diag_reply SQL_SUCCESS ''08001'' (- 5) ''no route'', ok_reply, ok_reply,
               handle_reply SQL_SUCCESS 9, ok_reply])
     = (Inl (ConnectionPoolError (Returns
          (''Failed to establish connection for alias '' @ [CHR 0x27] @ ''DB'' @ [CHR 0x27]
             @ '': ODBC Error: SQLSTATE=08001, NativeError=-5, Message='' @ [CHR 0x27]
             @ ''no route'' @ [CHR 0x27]))),
        \<lparr>pool_env = Environment 7, connections = Map.empty\<rparr>,
        \<lparr>dstate = [handle_reply SQL_SUCCESS 9, ok_reply],
         trace = [SQLAllocHandle SQL_HANDLE_DBC 7, SQLDriverConnect 8 ''dsn=bad'',
                  SQLGetDiagRec SQL_HANDLE_DBC 8, SQLDisconnect 8,
                  SQLFreeHandle SQL_HANDLE_DBC 8],
         cerr = [Creating_new_connection ''DB'', Closing_connection_via_destructor]\<rparr>)
   \<and> fst (getConnection scripted ''DB'' ''dsn=good''
            \<lparr>pool_env = Environment 7, connections = Map.empty\<rparr>
            \<lparr>dstate = [handle_reply SQL_SUCCESS 9, ok_reply],
             trace = [SQLAllocHandle SQL_HANDLE_DBC 7, SQLDriverConnect 8 ''dsn=bad'',
                      SQLGetDiagRec SQL_HANDLE_DBC 8, SQLDisconnect 8,
                      SQLFreeHandle SQL_HANDLE_DBC 8],
             cerr = [Creating_new_connection ''DB'', Closing_connection_via_destructor]\<rparr>)
     = Inr (Connections_at ''DB'')
   \<and> connections (fst (snd (getConnection scripted ''DB'' ''dsn=good''
            \<lparr>pool_env = Environment 7, connections = Map.empty\<rparr>
            \<lparr>dstate = [handle_reply SQL_SUCCESS 9, ok_reply],
             trace = [SQLAllocHandle SQL_HANDLE_DBC 7, SQLDriverConnect 8 ''dsn=bad'',
                      SQLGetDiagRec SQL_HANDLE_DBC 8, SQLDisconnect 8,
                      SQLFreeHandle SQL_HANDLE_DBC 8],
             cerr = [Creating_new_connection ''DB'', Closing_connection_via_destructor]\<rparr>)))
       ''DB''
     = Some (Connection 9)"
proof -
  let ?p = "\<lparr>pool_env = Environment 7, connections = Map.empty\<rparr>"
  let ?w = "start [handle_reply SQL_SUCCESS 8, no_reply,
               diag_reply SQL_SUCCESS ''08001'' (- 5) ''no route'', ok_reply, ok_reply,
               handle_reply SQL_SUCCESS 9, ok_reply]"
  let ?w1 = "\<lparr>dstate = [handle_reply SQL_SUCCESS 9, ok_reply],
         trace = [SQLAllocHandle SQL_HANDLE_DBC 7, SQLDriverConnect 8 ''dsn=bad'',
                  SQLGetDiagRec SQL_HANDLE_DBC 8, SQLDisconnect 8,
                  SQLFreeHandle SQL_HANDLE_DBC 8],
         cerr = [Creating_new_connection ''DB'', Closing_connection_via_destructor]\<rparr>
         :: reply list world"
  let ?m = "''Failed to establish connection for alias '' @ [CHR 0x27] @ ''DB'' @ [CHR 0x27]
             @ '': ODBC Error: SQLSTATE=08001, NativeError=-5, Message='' @ [CHR 0x27]
             @ ''no route'' @ [CHR 0x27]"
  have first: "getConnection scripted ''DB'' ''dsn=bad'' ?p ?w
                 = (Inl (ConnectionPoolError (Returns ?m)), ?p, ?w1)"
    by (simp add: pool_run_simps pool_error_message_def to_string_def format_long_def
          apostrophe_def)
  have absent: "connections ?p ''DB'' = None"
    by simp
  have fails: "connect_fails scripted ?p ''DB'' ''dsn=bad'' ?w"
    by (simp add: connect_fails_def connect_call_def new_handle_def alloc_call_def
          attempt_world_def failed_def after_def pool_run_simps)
  have succeeds: "connect_succeeds scripted ?p ''DB'' ''dsn=good'' ?w1"
    by (simp add: connect_succeeds_def connect_call_def new_handle_def alloc_call_def
          attempt_world_def failed_def after_def pool_run_simps)
  have h: "new_handle scripted ?p ''DB'' ?w1 = 9"
    by (simp add: new_handle_def alloc_call_def attempt_world_def pool_run_simps)
  from getConnection_rejected_then_accepted [of ?p "''DB''" scripted "''dsn=bad''" ?w "''dsn=good''"]
    absent fails first succeeds h
  have "fst (getConnection scripted ''DB'' ''dsn=good'' ?p ?w1) = Inr (Connections_at ''DB'')
      \<and> connections (fst (snd (getConnection scripted ''DB'' ''dsn=good'' ?p ?w1))) ''DB''
          = Some (Connection 9)"
    by (simp add: case_prod_unfold)
  with first show ?thesis by blast
qed

text \<open>
  A rejected string whose diagnostic message has 600 bytes. The driver writes the 511
  bytes that fit and reports the length 600; \<^verbatim>\<open>get_diagnostic_record\<close> reads 600 bytes from
  the buffer of 512, so the message the pool error wraps is not defined.
\<close>

lemma getConnection_long_diagnostic_example:
  "fst (getConnection scripted ''DB'' ''dsn=bad''
          \<lparr>pool_env = Environment 7, connections = Map.empty\<rparr>
          (start [handle_reply SQL_SUCCESS 8, no_reply,
                  diag_reply SQL_SUCCESS ''08001'' 5 (replicate 600 CHR ''x''), ok_reply, ok_reply]))
     = Inl (ConnectionPoolError Reads_past_buffer)"
  by (simp add: pool_run_simps)


end
